theory Spec2Isabelle
  imports Complex_Main
begin

section \<open>JavaScript numbers\<close>

text \<open>
  The page computes with JavaScript numbers, which are IEEE 754 binary64 values. A finite
  double is a rational number, so \<open>Fin q\<close> carries its exact value; every arithmetic
  operation computes the exact rational result and rounds it to the nearest double
  (ties to even) with \<open>fl\<close>. The two zeros are identified: the program compares,
  multiplies, divides by non-zero constants and prints, and none of these tells them apart
  (\<open>toFixed\<close> and string conversion print both as zero).
\<close>

datatype jsnum = NaN | PosInf | NegInf | Fin rat

text \<open>\<open>ilogn b n\<close> is the integer logarithm of \<open>n \<ge> 1\<close> to base \<open>b\<close>, rounded down.\<close>

function ilogn :: "int \<Rightarrow> int \<Rightarrow> int" where
  "ilogn b n = (if b < 2 \<or> n < b then 0 else 1 + ilogn b (n div b))"
  by pat_completeness auto
termination
  by (relation "measure (\<lambda>(b, n). nat n)") (auto simp: not_less intro!: int_div_less_self)

function ipow :: "int \<Rightarrow> int \<Rightarrow> int" where
  "ipow b e = (if e \<le> 0 then 1 else b * ipow b (e - 1))"
  by pat_completeness auto
termination
  by (relation "measure (\<lambda>(b, e). nat e)") auto

declare ilogn.simps [simp del] ipow.simps [simp del]

text \<open>\<open>scale b e\<close> is \<open>b\<close> to the power \<open>e\<close> for an exponent of either sign.\<close>

definition scale :: "int \<Rightarrow> int \<Rightarrow> rat" where
  "scale b e = (if 0 \<le> e then of_int (ipow b e) else 1 / of_int (ipow b (- e)))"

text \<open>For \<open>q > 0\<close>, \<open>ilog b q\<close> is the exponent \<open>e\<close> with \<open>b^e \<le> q < b^(e+1)\<close>.\<close>

definition ilog :: "int \<Rightarrow> rat \<Rightarrow> int" where
  "ilog b q =
     (if 1 \<le> q then ilogn b \<lfloor>q\<rfloor>
      else (let f = ilogn b \<lfloor>1 / q\<rfloor>
            in if q * scale b f = 1 then - f else - f - 1))"

definition roundHalfEven :: "rat \<Rightarrow> int" where
  "roundHalfEven q =
     (let n = \<lfloor>q\<rfloor>; r = q - of_int n
      in if r < 1 / 2 then n else if 1 / 2 < r then n + 1 else if even n then n else n + 1)"

text \<open>
  Rounding of a positive rational to binary64: 53 significant bits for normal numbers,
  a fixed unit of \<open>2^-1074\<close> for subnormal ones, infinity from \<open>2^1024\<close> on.
\<close>

definition flpos :: "rat \<Rightarrow> jsnum" where
  "flpos q =
     (let u = scale 2 (max (ilog 2 q) (- 1022) - 52);
          r = of_int (roundHalfEven (q / u)) * u
      in if scale 2 1024 \<le> r then PosInf else Fin r)"

fun neg :: "jsnum \<Rightarrow> jsnum" where
  "neg NaN = NaN"
| "neg PosInf = NegInf"
| "neg NegInf = PosInf"
| "neg (Fin q) = Fin (- q)"

definition fl :: "rat \<Rightarrow> jsnum" where
  "fl q = (if q = 0 then Fin 0 else if 0 < q then flpos q else neg (flpos (- q)))"

text \<open>The comparison \<open>a < b\<close>; it is false as soon as one side is NaN.\<close>

fun js_lt :: "jsnum \<Rightarrow> jsnum \<Rightarrow> bool" where
  "js_lt NaN _ = False"
| "js_lt _ NaN = False"
| "js_lt PosInf _ = False"
| "js_lt _ PosInf = True"
| "js_lt _ NegInf = False"
| "js_lt NegInf _ = True"
| "js_lt (Fin a) (Fin b) = (a < b)"

definition js_gt :: "jsnum \<Rightarrow> jsnum \<Rightarrow> bool" where
  "js_gt a b = js_lt b a"

fun sgn_js :: "jsnum \<Rightarrow> int" where
  "sgn_js NaN = 0"
| "sgn_js PosInf = 1"
| "sgn_js NegInf = - 1"
| "sgn_js (Fin q) = (if 0 < q then 1 else if q < 0 then - 1 else 0)"

definition signedInf :: "int \<Rightarrow> jsnum" where
  "signedInf s = (if 0 < s then PosInf else if s < 0 then NegInf else NaN)"

text \<open>The operators \<open>*\<close> and \<open>/\<close>. Neither raises: a zero divisor gives an infinity or NaN.\<close>

fun js_mul :: "jsnum \<Rightarrow> jsnum \<Rightarrow> jsnum" where
  "js_mul NaN _ = NaN"
| "js_mul _ NaN = NaN"
| "js_mul (Fin a) (Fin b) = fl (a * b)"
| "js_mul a b = signedInf (sgn_js a * sgn_js b)"

fun js_div :: "jsnum \<Rightarrow> jsnum \<Rightarrow> jsnum" where
  "js_div NaN _ = NaN"
| "js_div _ NaN = NaN"
| "js_div (Fin a) (Fin b) = (if b = 0 then signedInf (sgn_js (Fin a)) else fl (a / b))"
| "js_div (Fin a) _ = Fin 0"
| "js_div a (Fin b) = signedInf (sgn_js a * (if b < 0 then - 1 else 1))"
| "js_div _ _ = NaN"

section \<open>Numbers and strings\<close>

text \<open>
  Strings are byte lists: text outside ASCII is written as its UTF-8 bytes. The program
  only concatenates and compares strings, which UTF-8 and JavaScript's UTF-16 agree on.
\<close>

text \<open>The character of a digit \<open>0 \<le> d < 10\<close>, and the decimal digits of an integer \<open>n \<ge> 0\<close>.\<close>

definition digitChar :: "int \<Rightarrow> char" where
  "digitChar d = ''0123456789'' ! nat d"

function showInt :: "int \<Rightarrow> string" where
  "showInt n = (if n < 10 then [digitChar n] else showInt (n div 10) @ [digitChar (n mod 10)])"
  by pat_completeness auto
termination
  by (relation "measure nat") (auto intro!: int_div_less_self)

declare showInt.simps [simp del]

text \<open>
  \<open>Number::toString\<close> (ECMA-262): for a positive double \<open>x\<close> take the least number
  \<open>k\<close> of digits for which some \<open>k\<close>-digit integer \<open>s\<close> and exponent \<open>n\<close> have
  \<open>s * 10^(n-k)\<close> round to \<open>x\<close>, and among these \<open>s\<close> the one closest to \<open>x\<close>.
  \<open>pickDigits x e k\<close> tries \<open>k\<close> digits, where \<open>10^e \<le> x < 10^(e+1)\<close>: only the two
  integers around \<open>x / 10^(e+1-k)\<close> can qualify. It returns \<open>(n, s)\<close>.
\<close>

definition pickDigits :: "rat \<Rightarrow> int \<Rightarrow> int \<Rightarrow> (int \<times> int) option" where
  "pickDigits x e k =
     (let sc = scale 10 (e + 1 - k); t = x / sc;
          lo = \<lfloor>t\<rfloor>; hi = \<lceil>t\<rceil>;
          okLo = (fl (of_int lo * sc) = Fin x);
          okHi = (fl (of_int hi * sc) = Fin x);
          loCloser = (t - of_int lo < of_int hi - t \<or> (t - of_int lo = of_int hi - t \<and> even lo))
      in if okLo \<and> (\<not> okHi \<or> loCloser) then Some (e + 1, lo)
         else if okHi then (if hi = ipow 10 k then Some (e + 2, 1) else Some (e + 1, hi))
         else None)"

text \<open>Seventeen digits always suffice for a double; the first equation is never reached for one.\<close>

fun shortest :: "rat \<Rightarrow> int \<Rightarrow> int list \<Rightarrow> int \<times> int" where
  "shortest x e [] = (e + 1, roundHalfEven (x / scale 10 (e - 16)))"
| "shortest x e (k # ks) = (case pickDigits x e k of Some r \<Rightarrow> r | None \<Rightarrow> shortest x e ks)"

definition zeros :: "int \<Rightarrow> string" where
  "zeros n = replicate (nat n) CHR ''0''"

definition showPos :: "rat \<Rightarrow> string" where
  "showPos x =
     (let (n, s) = shortest x (ilog 10 x) [1, 2, 3, 4, 5, 6, 7, 8, 9, 10, 11, 12, 13, 14, 15, 16, 17];
          ds = showInt s; k = int (length ds)
      in if k \<le> n \<and> n \<le> 21 then ds @ zeros (n - k)
         else if 0 < n \<and> n \<le> 21 then take (nat n) ds @ ''.'' @ drop (nat n) ds
         else if - 6 < n \<and> n \<le> 0 then ''0.'' @ zeros (- n) @ ds
         else (if k = 1 then ds else take 1 ds @ ''.'' @ drop 1 ds)
              @ ''e'' @ (if n - 1 < 0 then ''-'' else ''+'') @ showInt \<bar>n - 1\<bar>)"

text \<open>What a template literal \<open>${x}\<close> and \<open>String(x)\<close> give for a number.\<close>

fun NumberToString :: "jsnum \<Rightarrow> string" where
  "NumberToString NaN = ''NaN''"
| "NumberToString PosInf = ''Infinity''"
| "NumberToString NegInf = ''-Infinity''"
| "NumberToString (Fin q) =
     (if q = 0 then ''0'' else if q < 0 then ''-'' @ showPos (- q) else showPos q)"

text \<open>
  \<open>Number.prototype.toFixed(f)\<close>: a value that is not finite, or of magnitude \<open>10^21\<close> or
  more, is printed as by \<open>String\<close>. Otherwise the integer \<open>n\<close> nearest to \<open>x * 10^f\<close>
  (the larger one on a tie) is printed with \<open>f\<close> digits after the point. The program
  calls it with the constants 0 and 2 only, so the range check on \<open>f\<close> never fails.
\<close>

definition fixedDigits :: "rat \<Rightarrow> nat \<Rightarrow> string" where
  "fixedDigits x f =
     (let n = \<lfloor>x * of_int (ipow 10 (int f)) + 1 / 2\<rfloor>;
          m = showInt n;
          m = (if f \<noteq> 0 \<and> length m \<le> f then replicate (f + 1 - length m) CHR ''0'' @ m else m)
      in if f \<noteq> 0 then take (length m - f) m @ ''.'' @ drop (length m - f) m else m)"

fun toFixed :: "jsnum \<Rightarrow> nat \<Rightarrow> string" where
  "toFixed (Fin q) f =
     (if of_int (ipow 10 21) \<le> \<bar>q\<bar> then NumberToString (Fin q)
      else (if q < 0 then ''-'' else []) @ fixedDigits \<bar>q\<bar> f)"
| "toFixed x f = NumberToString x"

text \<open>
  \<open>Number(s)\<close> for a string, the operation \<open>StringToNumber\<close> of ECMA-262. White
  space and line terminators on both sides are dropped. What is left is read as follows:
  the empty string is 0; a literal with the prefix \<open>0x\<close>, \<open>0o\<close> or \<open>0b\<close> (in
  either case, without a sign) is the integer of its digits; a decimal literal is an
  optional sign, then \<open>Infinity\<close> or digits with an optional fraction and an optional
  exponent; any other text is NaN. The value is rounded to the nearest double. The
  program applies \<open>Number\<close> to the text of the two number fields, in \<open>parseNumber\<close>,
  and to the result of \<open>toFixed\<close>, for the lot size.
\<close>

text \<open>The white space characters and line terminators, as UTF-8 byte sequences.\<close>

definition whiteSpaces :: "string list" where
  "whiteSpaces =
     [[CHR 0x09], [CHR 0x0A], [CHR 0x0B], [CHR 0x0C], [CHR 0x0D], [CHR 0x20],
      [CHR 0xC2, CHR 0xA0], [CHR 0xE1, CHR 0x9A, CHR 0x80],
      [CHR 0xE2, CHR 0x80, CHR 0x80], [CHR 0xE2, CHR 0x80, CHR 0x81],
      [CHR 0xE2, CHR 0x80, CHR 0x82], [CHR 0xE2, CHR 0x80, CHR 0x83],
      [CHR 0xE2, CHR 0x80, CHR 0x84], [CHR 0xE2, CHR 0x80, CHR 0x85],
      [CHR 0xE2, CHR 0x80, CHR 0x86], [CHR 0xE2, CHR 0x80, CHR 0x87],
      [CHR 0xE2, CHR 0x80, CHR 0x88], [CHR 0xE2, CHR 0x80, CHR 0x89],
      [CHR 0xE2, CHR 0x80, CHR 0x8A], [CHR 0xE2, CHR 0x80, CHR 0xA8],
      [CHR 0xE2, CHR 0x80, CHR 0xA9], [CHR 0xE2, CHR 0x80, CHR 0xAF],
      [CHR 0xE2, CHR 0x81, CHR 0x9F], [CHR 0xE3, CHR 0x80, CHR 0x80],
      [CHR 0xEF, CHR 0xBB, CHR 0xBF]]"

text \<open>
  \<open>leading ws s\<close> is the length of the member of \<open>ws\<close> that \<open>s\<close> starts with, 0 when
  there is none; \<open>dropLeading\<close> removes such members until none is left.
\<close>

definition leading :: "string list \<Rightarrow> string \<Rightarrow> nat" where
  "leading ws s =
     (case find (\<lambda>w. w \<noteq> [] \<and> take (length w) s = w) ws of
        None \<Rightarrow> 0
      | Some w \<Rightarrow> length w)"

function dropLeading :: "string list \<Rightarrow> string \<Rightarrow> string" where
  "dropLeading ws s = (if leading ws s = 0 then s else dropLeading ws (drop (leading ws s) s))"
  by pat_completeness auto
termination
proof (relation "measure (\<lambda>(ws, s). length s)")
  show "wf (measure (\<lambda>(ws, s). length s))"
    by simp
next
  fix ws :: "string list" and s :: string
  assume n: "leading ws s \<noteq> 0"
  have "s \<noteq> []"
  proof
    assume "s = []"
    then have "find (\<lambda>w. w \<noteq> [] \<and> take (length w) s = w) ws = None"
      by (auto simp add: find_None_iff)
    then show False
      using n by (simp add: leading_def)
  qed
  then show "((ws, drop (leading ws s) s), (ws, s)) \<in> measure (\<lambda>(ws, s). length s)"
    using n by simp
qed

declare dropLeading.simps [simp del]

definition trim :: "string \<Rightarrow> string" where
  "trim s = rev (dropLeading (map rev whiteSpaces) (rev (dropLeading whiteSpaces s)))"

definition isDigit :: "char \<Rightarrow> bool" where
  "isDigit c = (c \<in> set ''0123456789'')"

definition digitsVal :: "string \<Rightarrow> int" where
  "digitsVal ds = foldl (\<lambda>a c. 10 * a + (of_char c - 48)) 0 ds"

text \<open>The value of a digit of a radix literal, letters in either case; 99 for any other character.\<close>

definition digitOf :: "char \<Rightarrow> int" where
  "digitOf c =
     (let n = of_char c
      in if 48 \<le> n \<and> n \<le> 57 then n - 48
         else if 97 \<le> n \<and> n \<le> 102 then n - 87
         else if 65 \<le> n \<and> n \<le> 70 then n - 55
         else 99)"

definition radixLiteral :: "int \<Rightarrow> string \<Rightarrow> jsnum" where
  "radixLiteral b ds =
     (if ds \<noteq> [] \<and> list_all (\<lambda>c. digitOf c < b) ds
      then fl (of_int (foldl (\<lambda>a c. b * a + digitOf c) 0 ds))
      else NaN)"

definition parseExponent :: "string \<Rightarrow> int option" where
  "parseExponent s =
     (if s = [] then Some 0
      else if hd s = CHR ''e'' \<or> hd s = CHR ''E'' then
        (let t = tl s;
             sg = (if t \<noteq> [] \<and> hd t = CHR ''-'' then - 1 else 1);
             ds = (if t \<noteq> [] \<and> (hd t = CHR ''-'' \<or> hd t = CHR ''+'') then tl t else t)
         in if ds \<noteq> [] \<and> list_all isDigit ds then Some (sg * digitsVal ds) else None)
      else None)"

definition parseDecimal :: "string \<Rightarrow> rat option" where
  "parseDecimal s =
     (let ip = takeWhile isDigit s; r = dropWhile isDigit s;
          dot = (r \<noteq> [] \<and> hd r = CHR ''.'');
          fp = (if dot then takeWhile isDigit (tl r) else []);
          r = (if dot then dropWhile isDigit (tl r) else r)
      in if ip = [] \<and> fp = [] then None
         else (case parseExponent r of
                 None \<Rightarrow> None
               | Some e \<Rightarrow> Some (of_int (digitsVal (ip @ fp)) * scale 10 (e - int (length fp)))))"

definition unsignedNumber :: "string \<Rightarrow> jsnum" where
  "unsignedNumber s =
     (if s = ''Infinity'' then PosInf
      else (case parseDecimal s of None \<Rightarrow> NaN | Some q \<Rightarrow> fl q))"

definition Number :: "string \<Rightarrow> jsnum" where
  "Number s =
     (let t = trim s
      in if t = [] then Fin 0
         else if take 2 t = ''0x'' \<or> take 2 t = ''0X'' then radixLiteral 16 (drop 2 t)
         else if take 2 t = ''0o'' \<or> take 2 t = ''0O'' then radixLiteral 8 (drop 2 t)
         else if take 2 t = ''0b'' \<or> take 2 t = ''0B'' then radixLiteral 2 (drop 2 t)
         else if hd t = CHR ''-'' then neg (unsignedNumber (tl t))
         else if hd t = CHR ''+'' then unsignedNumber (tl t)
         else unsignedNumber t)"

text \<open>\<open>Number.isFinite\<close>.\<close>

definition isFinite :: "jsnum \<Rightarrow> bool" where
  "isFinite x = (case x of Fin q \<Rightarrow> True | _ \<Rightarrow> False)"

text \<open>\<open>Array.prototype.join\<close> on an array of strings.\<close>

fun join :: "string \<Rightarrow> string list \<Rightarrow> string" where
  "join sep [] = []"
| "join sep [x] = x"
| "join sep (x # y # ys) = x @ sep @ join sep (y # ys)"

section \<open>Values and the validation library\<close>

text \<open>
  A JavaScript value as the validator classifies it. An object is read through its
  properties only, so it is a function from property names to values, \<open>JUndefined\<close>
  where the property is absent.
\<close>

datatype jsval =
    JUndefined
  | JNull
  | JBool bool
  | JNum jsnum
  | JStr string
  | JArr "jsval list"
  | JObj "(string \<times> jsval) list"

type_synonym object = "string \<Rightarrow> jsval"

text \<open>
  The validator is the library zod, which is not part of the repository; its parsers are
  modelled after zod 3. Every parser gets the path of the value inside the input and
  returns the issues it raises, in the order it raises them, with the parsed value when
  the type of the input is right. A NaN is not a number for zod; an infinity is.
\<close>

datatype pathElem = Key string | Idx nat

datatype sizeType = NumberSize | ArraySize

datatype issue =
    invalid_type string string "pathElem list"
  | invalid_enum_value "string list" string "pathElem list"
  | too_small sizeType jsnum bool "pathElem list"
  | too_big sizeType jsnum bool "pathElem list"


fun getParsedType :: "jsval \<Rightarrow> string" where
  "getParsedType JUndefined = ''undefined''"
| "getParsedType JNull = ''null''"
| "getParsedType (JBool b) = ''boolean''"
| "getParsedType (JNum x) = (if x = NaN then ''nan'' else ''number'')"
| "getParsedType (JStr s) = ''string''"
| "getParsedType (JArr xs) = ''array''"
| "getParsedType (JObj kvs) = ''object''"

definition joinValues :: "string list \<Rightarrow> string" where
  "joinValues vs = join '' | '' (map (\<lambda>v. [CHR 0x27] @ v @ [CHR 0x27]) vs)"

type_synonym 'a parser = "pathElem list \<Rightarrow> jsval \<Rightarrow> issue list \<times> 'a option"

definition z_string :: "string parser" where
  "z_string p v =
     (case v of
        JStr s \<Rightarrow> ([], Some s)
      | _ \<Rightarrow> ([invalid_type ''string'' (getParsedType v) p], None))"

definition z_enum :: "string list \<Rightarrow> string parser" where
  "z_enum values p v =
     (case v of
        JStr s \<Rightarrow>
          if s \<in> set values then ([], Some s)
          else ([invalid_enum_value values s p], None)
      | _ \<Rightarrow> ([invalid_type (joinValues values) (getParsedType v) p], None))"

text \<open>The checks \<open>.min(v)\<close> and \<open>.max(v)\<close> on a number; both bounds are inclusive.\<close>

datatype numCheck = Min jsnum | Max jsnum

fun runCheck :: "pathElem list \<Rightarrow> jsnum \<Rightarrow> numCheck \<Rightarrow> issue list" where
  "runCheck p x (Min v) = (if js_lt x v then [too_small NumberSize v True p] else [])"
| "runCheck p x (Max v) = (if js_gt x v then [too_big NumberSize v True p] else [])"

definition z_number :: "numCheck list \<Rightarrow> jsnum parser" where
  "z_number checks p v =
     (case v of
        JNum x \<Rightarrow>
          if x = NaN then ([invalid_type ''number'' (getParsedType v) p], None)
          else (concat (map (runCheck p x) checks), Some x)
      | _ \<Rightarrow> ([invalid_type ''number'' (getParsedType v) p], None))"

text \<open>
  An array with \<open>.min(n)\<close>: the length check comes first, then every element is parsed
  at its index.
\<close>

definition z_array :: "'a parser \<Rightarrow> nat \<Rightarrow> 'a list parser" where
  "z_array elem minLength p v =
     (case v of
        JArr xs \<Rightarrow>
          (let rs = map (\<lambda>(i, x). elem (p @ [Idx i]) x) (enumerate 0 xs)
           in ((if length xs < minLength
                then [too_small ArraySize (Fin (of_nat minLength)) True p] else [])
               @ concat (map fst rs),
               those (map snd rs)))
      | _ \<Rightarrow> ([invalid_type ''array'' (getParsedType v) p], None))"

text \<open>
  The messages of zod 3's default error map for the issues above. The page shows
  the message only, so the functions below take the error map as a parameter; a
  theorem that depends on the text of a message names this map.
\<close>

fun zod3ErrorMap :: "issue \<Rightarrow> string" where
  "zod3ErrorMap (invalid_type expected received p) =
     (if received = ''undefined'' then ''Required''
      else ''Expected '' @ expected @ '', received '' @ received)"
| "zod3ErrorMap (invalid_enum_value options received p) =
     ''Invalid enum value. Expected '' @ joinValues options
       @ '', received '' @ [CHR 0x27] @ received @ [CHR 0x27]"
| "zod3ErrorMap (too_small ty minimum inclusive p) =
     (case ty of
        ArraySize \<Rightarrow>
          ''Array must contain '' @ (if inclusive then ''at least'' else ''more than'')
            @ '' '' @ NumberToString minimum @ '' element(s)''
      | NumberSize \<Rightarrow>
          ''Number must be ''
            @ (if inclusive then ''greater than or equal to '' else ''greater than '')
            @ NumberToString minimum)"
| "zod3ErrorMap (too_big ty maximum inclusive p) =
     (case ty of
        ArraySize \<Rightarrow>
          ''Array must contain '' @ (if inclusive then ''at most'' else ''less than'')
            @ '' '' @ NumberToString maximum @ '' element(s)''
      | NumberSize \<Rightarrow>
          ''Number must be ''
            @ (if inclusive then ''less than or equal to'' else ''less than'')
            @ '' '' @ NumberToString maximum)"

section \<open>The strategy page\<close>

text \<open>The type \<open>StrategyInput\<close> inferred from the schema: what a successful parse returns.\<close>

record StrategyInput =
  profile :: string
  capital :: jsnum
  riskPerTrade :: jsnum
  indicators :: "string list"
  session :: string
  automationLevel :: string

definition profileValues :: "string list" where
  "profileValues = [''Scalping'', ''Day Trade'', ''Swing'']"

definition sessionValues :: "string list" where
  "sessionValues = [''Londres'', ''Nova York'', ''T'' @ [CHR 0xC3, CHR 0xB3] @ ''quio'']"

definition automationValues :: "string list" where
  "automationValues = [''Manual'', ''Semi-Aut'' @ [CHR 0xC3, CHR 0xB4] @ ''nomo'', ''Total'']"

text \<open>
  \<open>strategySchema.parse\<close>: the object schema parses its six keys in the order of their
  declaration and the issues accumulate in that order; the parse succeeds when there is
  none. The argument is always an object (the form state is built by object spread), so
  the type check of the object itself is left out. The decimal literal \<open>0.1\<close> denotes
  the double nearest to one tenth.
\<close>

definition strategySchema :: "object \<Rightarrow> issue list + StrategyInput" where
  "strategySchema data =
     (let p = z_enum profileValues [Key ''profile''] (data ''profile'');
          c = z_number [Min (Fin 100)] [Key ''capital''] (data ''capital'');
          r = z_number [Min (fl (1 / 10)), Max (Fin 5)] [Key ''riskPerTrade'']
                (data ''riskPerTrade'');
          n = z_array z_string 1 [Key ''indicators''] (data ''indicators'');
          s = z_enum sessionValues [Key ''session''] (data ''session'');
          a = z_enum automationValues [Key ''automationLevel''] (data ''automationLevel'');
          issues = fst p @ fst c @ fst r @ fst n @ fst s @ fst a
      in case (snd p, snd c, snd r, snd n, snd s, snd a) of
           (Some p', Some c', Some r', Some n', Some s', Some a') \<Rightarrow>
             if issues = [] then
               Inr \<lparr>profile = p', capital = c', riskPerTrade = r', indicators = n',
                    session = s', automationLevel = a'\<rparr>
             else Inl issues
         | _ \<Rightarrow> Inl issues)"

definition indicatorOptions :: "string list" where
  "indicatorOptions =
     [''M'' @ [CHR 0xC3, CHR 0xA9] @ ''dia M'' @ [CHR 0xC3, CHR 0xB3] @ ''vel Exponencial (EMA)'',
      [CHR 0xC3, CHR 0x8D] @ ''ndice de For'' @ [CHR 0xC3, CHR 0xA7] @ ''a Relativa (RSI)'',
      ''Bandas de Bollinger'',
      ''Parabolic SAR'',
      ''MACD'']"

definition riskNotes :: "string \<rightharpoonup> string" where
  "riskNotes = map_of
     [(''Scalping'',
       ''Aproveite spreads baixos e priorize execu'' @ [CHR 0xC3, CHR 0xA7, CHR 0xC3, CHR 0xA3]
         @ ''o em contas ECN.''),
      (''Day Trade'',
       ''Combine confirma'' @ [CHR 0xC3, CHR 0xA7, CHR 0xC3, CHR 0xA3] @ ''o de tend''
         @ [CHR 0xC3, CHR 0xAA] @ ''ncia com filtro de volatilidade.''),
      (''Swing'',
       ''Busque conflu'' @ [CHR 0xC3, CHR 0xAA]
         @ ''ncia em timeframes H4 e D1, validando suporte/resist'' @ [CHR 0xC3, CHR 0xAA]
         @ ''ncia.'')]"

definition automationTips :: "string \<rightharpoonup> string" where
  "automationTips = map_of
     [(''Manual'',
       ''Ideal para traders discricion'' @ [CHR 0xC3, CHR 0xA1]
         @ ''rios que buscam validar regras.''),
      (''Semi-Aut'' @ [CHR 0xC3, CHR 0xB4] @ ''nomo'',
       ''Automatize entradas/sa'' @ [CHR 0xC3, CHR 0xAD] @ ''das e mantenha supervis''
         @ [CHR 0xC3, CHR 0xA3] @ ''o humana para ajustes.''),
      (''Total'',
       ''Garanta backtests robustos em M1/M5 e monitore m'' @ [CHR 0xC3, CHR 0xA9]
         @ ''tricas de drawdown semanal.'')]"

definition sessionCharacteristics :: "string \<rightharpoonup> string" where
  "sessionCharacteristics = map_of
     [(''Londres'', ''Alta liquidez em pares EUR/GBP, volatilidade consistente.''),
      (''Nova York'',
       ''Maior volume em USD, ideal para continuidades ou revers'' @ [CHR 0xC3, CHR 0xB5]
         @ ''es p'' @ [CHR 0xC3, CHR 0xB3] @ ''s-Londres.''),
      (''T'' @ [CHR 0xC3, CHR 0xB3] @ ''quio'',
       ''Mercado mais t'' @ [CHR 0xC3, CHR 0xA9]
         @ ''cnico, spreads mais altos, pares JPY responsivos.'')]"

text \<open>An object literal, and a table entry inside a template literal.\<close>

definition obj :: "(string \<times> jsval) list \<Rightarrow> object" where
  "obj kvs k = (case map_of kvs k of None \<Rightarrow> JUndefined | Some v \<Rightarrow> v)"

definition interp :: "string option \<Rightarrow> string" where
  "interp e = (case e of None \<Rightarrow> ''undefined'' | Some s \<Rightarrow> s)"

definition defaultState :: object where
  "defaultState = obj
     [(''profile'', JStr ''Day Trade''),
      (''capital'', JNum (Fin 1000)),
      (''riskPerTrade'', JNum (Fin 1)),
      (''indicators'', JArr [JStr (indicatorOptions ! 0), JStr (indicatorOptions ! 1)]),
      (''session'', JStr ''Londres''),
      (''automationLevel'', JStr (''Semi-Aut'' @ [CHR 0xC3, CHR 0xB4] @ ''nomo''))]"

text \<open>
  \<open>parseNumber\<close>: what a number field stores when its text changes, the number the
  text denotes or, when that is not finite, the fallback.
\<close>

definition parseNumber :: "string \<Rightarrow> jsnum \<Rightarrow> jsnum" where
  "parseNumber input fallback =
     (let parsed = Number input in if isFinite parsed then parsed else fallback)"

text \<open>The local constants of \<open>buildStrategy\<close>, each a function of its argument.\<close>

definition riskCapital :: "StrategyInput \<Rightarrow> jsnum" where
  "riskCapital input = js_div (js_mul (capital input) (riskPerTrade input)) (Fin 100)"

definition stopLossPips :: "StrategyInput \<Rightarrow> jsnum" where
  "stopLossPips input =
     (if profile input = ''Scalping'' then Fin 8
      else if profile input = ''Day Trade'' then Fin 20 else Fin 45)"

definition takeProfitMultiplier :: "StrategyInput \<Rightarrow> jsnum" where
  "takeProfitMultiplier input =
     (if profile input = ''Scalping'' then fl (12 / 10)
      else if profile input = ''Day Trade'' then Fin 2 else fl (28 / 10))"

definition lotSize :: "StrategyInput \<Rightarrow> jsnum" where
  "lotSize input =
     Number (toFixed (js_div (riskCapital input) (js_mul (stopLossPips input) (fl (15 / 10)))) 2)"

definition buildStrategy :: "StrategyInput \<Rightarrow> string" where
  "buildStrategy input =
     ''Estrat'' @ [CHR 0xC3, CHR 0xA9] @ ''gia '' @ profile input @ '' '' @ session input
       @ [CHR 0x0A]
     @ ''- Indicadores principais: '' @ join '', '' (indicators input) @ [CHR 0x0A]
     @ ''- Sess'' @ [CHR 0xC3, CHR 0xA3] @ ''o: '' @ interp (sessionCharacteristics (session input))
       @ [CHR 0x0A]
     @ ''- Risco por trade: '' @ toFixed (riskPerTrade input) 2 @ ''% (''
       @ toFixed (riskCapital input) 2 @ '' USD)'' @ [CHR 0x0A]
     @ ''- Stop loss m'' @ [CHR 0xC3, CHR 0xA9] @ ''dio: '' @ NumberToString (stopLossPips input)
       @ '' pips | Take profit: ''
       @ toFixed (js_mul (stopLossPips input) (takeProfitMultiplier input)) 0 @ '' pips''
       @ [CHR 0x0A]
     @ ''- Lote sugerido: '' @ NumberToString (lotSize input) @ '' mini lotes'' @ [CHR 0x0A]
     @ ''- Observa'' @ [CHR 0xC3, CHR 0xA7, CHR 0xC3, CHR 0xA3] @ ''o: ''
       @ interp (riskNotes (profile input)) @ '' ''
       @ interp (automationTips (automationLevel input))"

text \<open>
  The state of the page and the handler of the button. A failed parse throws a
  \<open>ZodError\<close>: the handler shows the message of its first issue and leaves the last
  result as it is. Nothing else throws on a parsed input, so the second branch of the
  \<open>catch\<close> is not reached.
\<close>

record page =
  form :: "object option"
  error :: "string option"
  result :: "string option"

definition currentState :: "page \<Rightarrow> object" where
  "currentState st = (case form st of None \<Rightarrow> defaultState | Some f \<Rightarrow> f)"

definition handleGenerate :: "(issue \<Rightarrow> string) \<Rightarrow> page \<Rightarrow> page" where
  "handleGenerate errorMap st =
     (case strategySchema (currentState st) of
        Inr parsed \<Rightarrow> st\<lparr>error := None, result := Some (buildStrategy parsed)\<rparr>
      | Inl issues \<Rightarrow>
          st\<lparr>error := Some (case issues of
                              [] \<Rightarrow> ''Dados inv'' @ [CHR 0xC3, CHR 0xA1] @ ''lidos''
                            | i # _ \<Rightarrow> errorMap i)\<rparr>)"

section \<open>The validation rules as the specification words them\<close>


definition js_le :: "jsnum \<Rightarrow> jsnum \<Rightarrow> bool" where
  "js_le a b = (js_lt a b \<or> (a = b \<and> a \<noteq> NaN))"

definition isString :: "jsval \<Rightarrow> bool" where
  "isString v = (case v of JStr s \<Rightarrow> True | _ \<Rightarrow> False)"

definition ruleHolds :: "object \<Rightarrow> string \<Rightarrow> bool" where
  "ruleHolds data k =
     (if k = ''profile'' then
        (case data k of JStr s \<Rightarrow> s \<in> set profileValues | _ \<Rightarrow> False)
      else if k = ''capital'' then
        (case data k of JNum x \<Rightarrow> js_le (Fin 100) x | _ \<Rightarrow> False)
      else if k = ''riskPerTrade'' then
        (case data k of JNum x \<Rightarrow> js_le (fl (1 / 10)) x \<and> js_le x (Fin 5) | _ \<Rightarrow> False)
      else if k = ''indicators'' then
        (case data k of JArr xs \<Rightarrow> 1 \<le> length xs \<and> list_all isString xs | _ \<Rightarrow> False)
      else if k = ''session'' then
        (case data k of JStr s \<Rightarrow> s \<in> set sessionValues | _ \<Rightarrow> False)
      else if k = ''automationLevel'' then
        (case data k of JStr s \<Rightarrow> s \<in> set automationValues | _ \<Rightarrow> False)
      else True)"







text \<open>A number printed with exactly \<open>f\<close> digits after the decimal point.\<close>

definition isDecimal :: "nat \<Rightarrow> string \<Rightarrow> bool" where
  "isDecimal f s =
     (f + 2 \<le> length s
      \<and> list_all isDigit (take (length s - f - 1) s)
      \<and> s ! (length s - f - 1) = CHR ''.''
      \<and> list_all isDigit (drop (length s - f) s))"

section \<open>Properties of the parsers\<close>

lemma z_enum_ok: "s \<in> set vs \<Longrightarrow> z_enum vs p (JStr s) = ([], Some s)"
  by (simp add: z_enum_def)

lemma z_enum_fst: "fst (z_enum vs p v) = [] \<longleftrightarrow> (\<exists>s. v = JStr s \<and> s \<in> set vs)"
  by (cases v) (simp_all add: z_enum_def)

lemma z_enum_snd: "snd (z_enum vs p v) = Some s \<longleftrightarrow> v = JStr s \<and> s \<in> set vs"
  by (cases v) (auto simp add: z_enum_def)


lemma z_number_snd: "snd (z_number cs p v) = Some x \<longleftrightarrow> v = JNum x \<and> x \<noteq> NaN"
  by (cases v) (auto simp add: z_number_def)

lemma z_number_ok: "x \<noteq> NaN \<Longrightarrow> z_number cs p (JNum x) = (concat (map (runCheck p x) cs), Some x)"
  by (simp add: z_number_def)



lemma z_number_fst_None: "snd (z_number cs p v) = None \<Longrightarrow> fst (z_number cs p v) \<noteq> []"
  by (cases v) (auto simp add: z_number_def split: if_splits)

lemma z_string_elems_fst:
  "concat (map fst (map (\<lambda>(i, x). z_string (p @ [Idx i]) x) (enumerate k xs))) = []
     \<longleftrightarrow> list_all isString xs"
  by (induction xs arbitrary: k) (auto simp add: z_string_def isString_def split: jsval.splits)

lemma z_string_elems_snd:
  "those (map snd (map (\<lambda>(i, x). z_string (p @ [Idx i]) x) (enumerate k xs))) = Some ys
     \<longleftrightarrow> xs = map JStr ys"
  by (induction xs arbitrary: k ys) (auto simp add: z_string_def split: jsval.splits option.splits)


lemma z_array_JArr:
  "z_array elem n p (JArr xs) =
     ((if length xs < n then [too_small ArraySize (Fin (of_nat n)) True p] else [])
        @ concat (map fst (map (\<lambda>(i, x). elem (p @ [Idx i]) x) (enumerate 0 xs))),
      those (map snd (map (\<lambda>(i, x). elem (p @ [Idx i]) x) (enumerate 0 xs))))"
  unfolding z_array_def Let_def by (simp only: jsval.case)

lemma z_array_other:
  "\<forall>xs. v \<noteq> JArr xs \<Longrightarrow> z_array elem n p v = ([invalid_type ''array'' (getParsedType v) p], None)"
  by (cases v) (simp_all add: z_array_def)

lemma z_array_string_fst:
  "fst (z_array z_string n p v) = [] \<longleftrightarrow> (\<exists>xs. v = JArr xs \<and> n \<le> length xs \<and> list_all isString xs)"
proof (cases "\<exists>xs. v = JArr xs")
  case True
  then obtain xs where v: "v = JArr xs" by blast
  show ?thesis
    unfolding v z_array_JArr fst_conv append_is_Nil_conv z_string_elems_fst
    by auto
next
  case False
  then show ?thesis by (simp add: z_array_other)
qed

lemma z_array_string_snd:
  "snd (z_array z_string n p v) = Some ys \<longleftrightarrow> v = JArr (map JStr ys)"
proof (cases "\<exists>xs. v = JArr xs")
  case True
  then obtain xs where v: "v = JArr xs" by blast
  show ?thesis
    unfolding v z_array_JArr snd_conv z_string_elems_snd
    by auto
next
  case False
  then show ?thesis by (auto simp add: z_array_other)
qed


lemma list_all_isString_map: "list_all isString (map JStr ys)"
  by (induction ys) (simp_all add: isString_def)

lemma fl_tenth: "fl (1 / 10) = Fin (3602879701896397 / 36028797018963968)"
  by code_simp

lemma js_le_Fin: "js_le (Fin a) (Fin b) \<longleftrightarrow> a \<le> b"
  by (auto simp add: js_le_def)

lemma js_le_Fin_left: "js_le (Fin b) x \<longleftrightarrow> x \<noteq> NaN \<and> \<not> js_lt x (Fin b)"
  by (cases x) (auto simp add: js_le_def)

lemma js_le_Fin_right: "js_le x (Fin b) \<longleftrightarrow> x \<noteq> NaN \<and> \<not> js_gt x (Fin b)"
  by (cases x) (auto simp add: js_le_def js_gt_def)

lemma js_le_not_NaN: "js_le a b \<Longrightarrow> a \<noteq> NaN \<and> b \<noteq> NaN"
  by (cases a; cases b) (auto simp add: js_le_def)

lemma z_number_fst:
  "fst (z_number cs p v) = [] \<longleftrightarrow> (\<exists>x. v = JNum x \<and> x \<noteq> NaN \<and> (\<forall>c \<in> set cs. runCheck p x c = []))"
  by (cases v) (auto simp add: z_number_def)

lemma capital_fst:
  "fst (z_number [Min (Fin 100)] p v) = [] \<longleftrightarrow> (\<exists>x. v = JNum x \<and> js_le (Fin 100) x)"
  by (auto simp add: z_number_fst js_le_Fin_left)

lemma riskPerTrade_fst:
  "fst (z_number [Min (fl (1 / 10)), Max (Fin 5)] p v) = []
     \<longleftrightarrow> (\<exists>x. v = JNum x \<and> js_le (fl (1 / 10)) x \<and> js_le x (Fin 5))"
  by (auto simp add: z_number_fst fl_tenth js_le_Fin_left js_le_Fin_right)

lemma strategySchema_Inr_iff:
  "strategySchema d = Inr i \<longleftrightarrow>
     d ''profile'' = JStr (profile i) \<and> profile i \<in> set profileValues
     \<and> d ''capital'' = JNum (capital i) \<and> js_le (Fin 100) (capital i)
     \<and> d ''riskPerTrade'' = JNum (riskPerTrade i)
     \<and> js_le (fl (1 / 10)) (riskPerTrade i) \<and> js_le (riskPerTrade i) (Fin 5)
     \<and> d ''indicators'' = JArr (map JStr (indicators i)) \<and> indicators i \<noteq> []
     \<and> d ''session'' = JStr (session i) \<and> session i \<in> set sessionValues
     \<and> d ''automationLevel'' = JStr (automationLevel i)
     \<and> automationLevel i \<in> set automationValues"
  (is "?L \<longleftrightarrow> ?R")
proof
  assume ?L
  then show ?R
    unfolding strategySchema_def Let_def
    apply (simp split: option.splits if_splits add: z_enum_snd z_number_snd z_array_string_snd z_enum_fst capital_fst riskPerTrade_fst z_array_string_fst)
    apply (cases i)
    apply auto
    done
next
  assume r: ?R
  have p: "z_enum profileValues [Key ''profile''] (d ''profile'') = ([], Some (profile i))"
    using r by (simp add: z_enum_ok)
  have s: "z_enum sessionValues [Key ''session''] (d ''session'') = ([], Some (session i))"
    using r by (simp add: z_enum_ok)
  have a: "z_enum automationValues [Key ''automationLevel''] (d ''automationLevel'')
             = ([], Some (automationLevel i))"
    using r by (simp add: z_enum_ok)
  have c: "fst (z_number [Min (Fin 100)] [Key ''capital''] (d ''capital'')) = []"
     "snd (z_number [Min (Fin 100)] [Key ''capital''] (d ''capital'')) = Some (capital i)"
    using r js_le_not_NaN[of "Fin 100" "capital i"] by (simp_all add: capital_fst z_number_snd)
  have k: "fst (z_number [Min (fl (1 / 10)), Max (Fin 5)] [Key ''riskPerTrade''] (d ''riskPerTrade'')) = []"
     "snd (z_number [Min (fl (1 / 10)), Max (Fin 5)] [Key ''riskPerTrade''] (d ''riskPerTrade'')) = Some (riskPerTrade i)"
    using r js_le_not_NaN[of "riskPerTrade i" "Fin 5"] by (simp_all add: riskPerTrade_fst z_number_snd)
  have n: "fst (z_array z_string 1 [Key ''indicators''] (d ''indicators'')) = []"
     "snd (z_array z_string 1 [Key ''indicators''] (d ''indicators'')) = Some (indicators i)"
    using r by (simp_all add: z_array_string_fst z_array_string_snd list_all_isString_map Suc_le_eq)
  show ?L
    unfolding strategySchema_def Let_def p s a c k n by simp
qed

lemma z_enum_snd_None: "snd (z_enum vs p v) = None \<Longrightarrow> fst (z_enum vs p v) \<noteq> []"
  by (cases v) (auto simp add: z_enum_def split: if_splits)

lemma list_all_isString_ex: "list_all isString xs \<Longrightarrow> \<exists>ys. xs = map JStr ys"
proof (induction xs)
  case Nil
  then show ?case by simp
next
  case (Cons x xs)
  then obtain ys where "xs = map JStr ys" by auto
  moreover from Cons.prems obtain s where "x = JStr s"
    by (cases x) (simp_all add: isString_def)
  ultimately have "x # xs = map JStr (s # ys)" by simp
  then show ?case by (rule exI)
qed

lemma z_array_string_snd_None:
  "snd (z_array z_string n p v) = None \<Longrightarrow> fst (z_array z_string n p v) \<noteq> []"
proof
  assume none: "snd (z_array z_string n p v) = None"
  assume "fst (z_array z_string n p v) = []"
  then obtain xs where "v = JArr xs" "list_all isString xs"
    by (auto simp add: z_array_string_fst)
  then obtain ys where "v = JArr (map JStr ys)"
    using list_all_isString_ex by blast
  then have "snd (z_array z_string n p v) = Some ys"
    by (simp add: z_array_string_snd)
  with none show False by simp
qed

lemma strategySchema_Inl:
  assumes "strategySchema d = Inl issues"
  shows "issues \<noteq> []"
    and "issues =
      fst (z_enum profileValues [Key ''profile''] (d ''profile''))
      @ fst (z_number [Min (Fin 100)] [Key ''capital''] (d ''capital''))
      @ fst (z_number [Min (fl (1 / 10)), Max (Fin 5)] [Key ''riskPerTrade''] (d ''riskPerTrade''))
      @ fst (z_array z_string 1 [Key ''indicators''] (d ''indicators''))
      @ fst (z_enum sessionValues [Key ''session''] (d ''session''))
      @ fst (z_enum automationValues [Key ''automationLevel''] (d ''automationLevel''))"
  using assms z_enum_snd_None[of profileValues "[Key ''profile'']" "d ''profile''"]
    z_enum_snd_None[of sessionValues "[Key ''session'']" "d ''session''"]
    z_enum_snd_None[of automationValues "[Key ''automationLevel'']" "d ''automationLevel''"]
    z_number_fst_None[of "[Min (Fin 100)]" "[Key ''capital'']" "d ''capital''"]
    z_number_fst_None[of "[Min (fl (1 / 10)), Max (Fin 5)]" "[Key ''riskPerTrade'']" "d ''riskPerTrade''"]
    z_array_string_snd_None[of 1 "[Key ''indicators'']" "d ''indicators''"]
  unfolding strategySchema_def Let_def
  by (auto split: option.splits if_splits)

lemma ruleHolds_profile:
  "ruleHolds d ''profile'' \<longleftrightarrow> fst (z_enum profileValues [Key ''profile''] (d ''profile'')) = []"
  by (auto simp add: ruleHolds_def z_enum_fst split: jsval.splits)

lemma ruleHolds_capital:
  "ruleHolds d ''capital'' \<longleftrightarrow> fst (z_number [Min (Fin 100)] [Key ''capital''] (d ''capital'')) = []"
  by (auto simp add: ruleHolds_def capital_fst split: jsval.splits)

lemma ruleHolds_riskPerTrade:
  "ruleHolds d ''riskPerTrade'' \<longleftrightarrow>
     fst (z_number [Min (fl (1 / 10)), Max (Fin 5)] [Key ''riskPerTrade''] (d ''riskPerTrade'')) = []"
  by (auto simp add: ruleHolds_def riskPerTrade_fst split: jsval.splits)


lemma ruleHolds_session:
  "ruleHolds d ''session'' \<longleftrightarrow> fst (z_enum sessionValues [Key ''session''] (d ''session'')) = []"
  by (auto simp add: ruleHolds_def z_enum_fst split: jsval.splits)

lemma ruleHolds_automationLevel:
  "ruleHolds d ''automationLevel'' \<longleftrightarrow>
     fst (z_enum automationValues [Key ''automationLevel''] (d ''automationLevel'')) = []"
  by (auto simp add: ruleHolds_def z_enum_fst split: jsval.splits)

section \<open>The handler\<close>

lemma handleGenerate_Inr:
  "strategySchema (currentState st) = Inr i \<Longrightarrow>
     handleGenerate em st = st\<lparr>error := None, result := Some (buildStrategy i)\<rparr>"
  by (simp add: handleGenerate_def)

lemma handleGenerate_Inl:
  "strategySchema (currentState st) = Inl issues \<Longrightarrow>
     handleGenerate em st = st\<lparr>error := Some (em (hd issues))\<rparr>"
  using strategySchema_Inl(1)[of "currentState st" issues]
  by (cases issues) (simp_all add: handleGenerate_def)

lemma currentState_Some: "currentState \<lparr>form = Some d, error = e, result = r\<rparr> = d"
  by (simp add: currentState_def)

lemma defaultState_simps:
  "defaultState ''profile'' = JStr ''Day Trade''"
  "defaultState ''capital'' = JNum (Fin 1000)"
  "defaultState ''riskPerTrade'' = JNum (Fin 1)"
  "defaultState ''indicators'' = JArr [JStr (indicatorOptions ! 0), JStr (indicatorOptions ! 1)]"
  "defaultState ''session'' = JStr ''Londres''"
  "defaultState ''automationLevel'' = JStr (''Semi-Aut'' @ [CHR 0xC3, CHR 0xB4] @ ''nomo'')"
  by (simp_all add: defaultState_def obj_def)

lemma strategySchema_defaultState:
  "strategySchema defaultState =
     Inr \<lparr>profile = ''Day Trade'', capital = Fin 1000, riskPerTrade = Fin 1,
          indicators = [indicatorOptions ! 0, indicatorOptions ! 1], session = ''Londres'',
          automationLevel = ''Semi-Aut'' @ [CHR 0xC3, CHR 0xB4] @ ''nomo''\<rparr>"
  by (simp add: strategySchema_Inr_iff defaultState_simps profileValues_def sessionValues_def
      automationValues_def js_le_def fl_tenth)

lemma map_JStr_eq: "map JStr xs = map JStr ys \<longleftrightarrow> xs = ys"
  by (rule inj_map_eq_map) (simp add: inj_on_def)

section \<open>The first issue and its message\<close>










section \<open>Printing with a fixed number of decimals\<close>

lemma digitChar_isDigit: "d < 10 \<Longrightarrow> isDigit (digitChar d)"
proof -
  assume "d < 10"
  then have "nat d \<in> {0, 1, 2, 3, 4, 5, 6, 7, 8, 9}" by auto
  then show ?thesis
    unfolding digitChar_def isDigit_def by (elim insertE) simp_all
qed

lemma showInt_digits: "list_all isDigit (showInt n)"
proof (induction n rule: showInt.induct)
  case (1 n)
  show ?case
  proof (cases "n < 10")
    case True
    then show ?thesis
      by (subst showInt.simps) (simp add: digitChar_isDigit)
  next
    case False
    then have "list_all isDigit (showInt (n div 10))"
      using 1 by simp
    moreover have "isDigit (digitChar (n mod 10))"
      by (rule digitChar_isDigit) simp
    ultimately show ?thesis
      using False by (subst showInt.simps) simp
  qed
qed

lemma showInt_nonempty: "showInt n \<noteq> []"
  by (subst showInt.simps) simp

lemma isDecimal_intro:
  assumes "a \<noteq> []" and "list_all isDigit a" and "list_all isDigit b" and "length b = f"
  shows "isDecimal f (a @ ''.'' @ b)"
proof -
  have "0 < length a"
    using assms(1) by simp
  then show ?thesis
    using assms(2-4) by (simp add: isDecimal_def nth_append Suc_le_eq)
qed

lemma fixedDigits_isDecimal:
  assumes "f \<noteq> 0"
  shows "isDecimal f (fixedDigits x f)"
proof -
  define m where "m = showInt \<lfloor>x * of_int (ipow 10 (int f)) + 1 / 2\<rfloor>"
  define m' where "m' = (if length m \<le> f then replicate (f + 1 - length m) CHR ''0'' @ m else m)"
  have d: "list_all isDigit m"
    unfolding m_def by (rule showInt_digits)
  have z: "isDigit CHR ''0''"
    by (simp add: isDigit_def)
  have d': "list_all isDigit m'"
    unfolding m'_def using d z by (simp add: list_all_iff)
  have l: "f < length m'"
    unfolding m'_def by auto
  have eq: "fixedDigits x f = take (length m' - f) m' @ ''.'' @ drop (length m' - f) m'"
    unfolding fixedDigits_def Let_def m'_def m_def using assms
    by simp
  have "isDecimal f (take (length m' - f) m' @ ''.'' @ drop (length m' - f) m')"
  proof (rule isDecimal_intro)
    show "take (length m' - f) m' \<noteq> []"
      using l by auto
    show "list_all isDigit (take (length m' - f) m')"
      using d' by (auto simp add: list_all_iff dest: in_set_takeD)
    show "list_all isDigit (drop (length m' - f) m')"
      using d' by (auto simp add: list_all_iff dest: in_set_dropD)
    show "length (drop (length m' - f) m') = f"
      using l by simp
  qed
  then show ?thesis
    by (simp only: eq)
qed

lemma ipow_10_21: "ipow 10 21 = 1000000000000000000000"
  by code_simp

lemma toFixed_isDecimal:
  assumes "0 \<le> q" and "q < 1000000000000000000000"
  shows "isDecimal 2 (toFixed (Fin q) 2)"
  using assms fixedDigits_isDecimal[of 2 q] by (simp add: ipow_10_21)

lemma ipow_pos: "0 < b \<Longrightarrow> 0 < ipow b e"
proof (induction b e rule: ipow.induct)
  case (1 b e)
  show ?case
  proof (cases "e \<le> 0")
    case True
    then show ?thesis
      by (subst ipow.simps) simp
  next
    case False
    then have "0 < ipow b (e - 1)"
      using 1 by simp
    then show ?thesis
      using False 1(2) by (subst ipow.simps) simp
  qed
qed

lemma scale_pos: "0 < b \<Longrightarrow> 0 < scale b e"
  by (simp add: scale_def ipow_pos)

lemma roundHalfEven_nonneg: "0 \<le> x \<Longrightarrow> 0 \<le> roundHalfEven x"
  by (auto simp add: roundHalfEven_def Let_def)

lemma fl_nonneg: "0 \<le> q \<Longrightarrow> fl q = PosInf \<or> (\<exists>r. 0 \<le> r \<and> fl q = Fin r)"
proof (cases "q = 0")
  case True
  then show ?thesis
    by (simp add: fl_def)
next
  case False
  assume "0 \<le> q"
  with False have q: "0 < q"
    by simp
  define u where "u = scale 2 (max (ilog 2 q) (- 1022) - 52)"
  define r where "r = of_int (roundHalfEven (q / u)) * u"
  have u: "0 < u"
    unfolding u_def by (rule scale_pos) simp
  then have "0 \<le> roundHalfEven (q / u)"
    using q by (intro roundHalfEven_nonneg) simp
  then have r: "0 \<le> r"
    unfolding r_def using u by simp
  have "fl q = (if scale 2 1024 \<le> r then PosInf else Fin r)"
    using q unfolding fl_def flpos_def Let_def r_def u_def by simp
  then show ?thesis
    using r by auto
qed

lemma riskPerTrade_decimal:
  assumes "strategySchema d = Inr i"
  shows "isDecimal 2 (toFixed (riskPerTrade i) 2)"
proof -
  have lo: "js_le (Fin (3602879701896397 / 36028797018963968)) (riskPerTrade i)"
    and hi: "js_le (riskPerTrade i) (Fin 5)"
    using assms by (simp_all add: strategySchema_Inr_iff fl_tenth)
  then obtain b where b: "riskPerTrade i = Fin b"
    by (cases "riskPerTrade i") (simp_all add: js_le_def)
  have "0 \<le> b" "b < 1000000000000000000000"
    using lo hi unfolding b js_le_Fin by linarith+
  then show ?thesis
    unfolding b by (rule toFixed_isDecimal)
qed

lemma riskCapital_nonneg:
  assumes "strategySchema d = Inr i" and "riskCapital i = Fin q"
  shows "0 \<le> q"
proof -
  have lo: "js_le (Fin (3602879701896397 / 36028797018963968)) (riskPerTrade i)"
    and hi: "js_le (riskPerTrade i) (Fin 5)" and c: "js_le (Fin 100) (capital i)"
    using assms(1) by (simp_all add: strategySchema_Inr_iff fl_tenth)
  obtain b where b: "riskPerTrade i = Fin b"
    using lo hi by (cases "riskPerTrade i") (simp_all add: js_le_def)
  have bpos: "0 < b"
    using lo unfolding b js_le_Fin by linarith
  show ?thesis
  proof (cases "capital i")
    case NaN
    then show ?thesis using c by (simp add: js_le_def)
  next
    case PosInf
    then have "riskCapital i = PosInf"
      using bpos by (simp add: riskCapital_def b signedInf_def)
    then show ?thesis using assms(2) by simp
  next
    case NegInf
    then show ?thesis using c by (simp add: js_le_def)
  next
    case (Fin a)
    then have "0 \<le> a" 
      using c by (simp add: js_le_Fin)
    then have "0 \<le> a * b"
      using bpos by simp
    from fl_nonneg[OF this] show ?thesis
    proof
      assume "fl (a * b) = PosInf"
      then have "riskCapital i = PosInf"
        by (simp add: riskCapital_def b Fin signedInf_def)
      then show ?thesis using assms(2) by simp
    next
      assume "\<exists>r. 0 \<le> r \<and> fl (a * b) = Fin r"
      then obtain r where r: "0 \<le> r" "fl (a * b) = Fin r"
        by blast
      then have rc: "riskCapital i = fl (r / 100)"
        by (simp add: riskCapital_def b Fin)
      have "0 \<le> r / 100"
        using r(1) by simp
      from fl_nonneg[OF this] show ?thesis
        using assms(2) rc by auto
    qed
  qed
qed

lemma pips_strings:
  "NumberToString (Fin 8) = ''8''" "NumberToString (Fin 20) = ''20''"
  "NumberToString (Fin 45) = ''45''"
  "toFixed (js_mul (Fin 8) (fl (12 / 10))) 0 = ''10''"
  "toFixed (js_mul (Fin 20) (Fin 2)) 0 = ''40''"
  "toFixed (js_mul (Fin 45) (fl (28 / 10))) 0 = ''126''"
  by code_simp+

section \<open>The report of an accepted input\<close>

text \<open>
  For an accepted input the handler clears the error and stores the report, seven
  segments with a line break between them: the title with the profile and the session
  of the input; the indicators as they are, joined by a comma and a space; the
  characteristics of the session; the risk, with the percentage printed with two decimals
  and the amount printed with two decimals when it is finite and below \<open>10^21\<close>;
  the stop loss and the take profit, which are 8 and 10, 20 and 40 or 45 and 126;
  the lot size; the risk note of the profile and the tip of the automation level.
\<close>

lemma report_layout:
  assumes "strategySchema (currentState st) = Inr i"
  shows "error (handleGenerate em st) = None
         \<and> currentState st ''profile'' = JStr (profile i)
         \<and> currentState st ''session'' = JStr (session i)
         \<and> currentState st ''indicators'' = JArr (map JStr (indicators i))
         \<and> (\<exists>characteristics riskNote tip pips.
               sessionCharacteristics (session i) = Some characteristics
             \<and> riskNotes (profile i) = Some riskNote
             \<and> automationTips (automationLevel i) = Some tip
             \<and> pips = (NumberToString (stopLossPips i),
                        toFixed (js_mul (stopLossPips i) (takeProfitMultiplier i)) 0)
             \<and> (pips = (''8'', ''10'') \<or> pips = (''20'', ''40'') \<or> pips = (''45'', ''126''))
             \<and> result (handleGenerate em st) = Some
                  (''Estrat'' @ [CHR 0xC3, CHR 0xA9] @ ''gia '' @ profile i @ '' '' @ session i
                     @ [CHR 0x0A]
                   @ ''- Indicadores principais: '' @ join '', '' (indicators i) @ [CHR 0x0A]
                   @ ''- Sess'' @ [CHR 0xC3, CHR 0xA3] @ ''o: '' @ characteristics @ [CHR 0x0A]
                   @ ''- Risco por trade: '' @ toFixed (riskPerTrade i) 2 @ ''% (''
                     @ toFixed (riskCapital i) 2 @ '' USD)'' @ [CHR 0x0A]
                   @ ''- Stop loss m'' @ [CHR 0xC3, CHR 0xA9] @ ''dio: '' @ fst pips
                     @ '' pips | Take profit: '' @ snd pips @ '' pips'' @ [CHR 0x0A]
                   @ ''- Lote sugerido: '' @ NumberToString (lotSize i) @ '' mini lotes''
                     @ [CHR 0x0A]
                   @ ''- Observa'' @ [CHR 0xC3, CHR 0xA7, CHR 0xC3, CHR 0xA3] @ ''o: ''
                     @ riskNote @ '' '' @ tip))
         \<and> isDecimal 2 (toFixed (riskPerTrade i) 2)
         \<and> (\<forall>q. riskCapital i = Fin q \<and> q < 1000000000000000000000
               \<longrightarrow> isDecimal 2 (toFixed (riskCapital i) 2))"
proof -
  have f: "currentState st ''profile'' = JStr (profile i)"
    "currentState st ''session'' = JStr (session i)"
    "currentState st ''indicators'' = JArr (map JStr (indicators i))"
    and p: "profile i \<in> set profileValues" and s: "session i \<in> set sessionValues"
    and a: "automationLevel i \<in> set automationValues"
    using assms by (simp_all add: strategySchema_Inr_iff)
  obtain characteristics where sc: "sessionCharacteristics (session i) = Some characteristics"
    using s by (auto simp add: sessionValues_def sessionCharacteristics_def)
  obtain riskNote where rn: "riskNotes (profile i) = Some riskNote"
    using p by (auto simp add: profileValues_def riskNotes_def)
  obtain tip where at: "automationTips (automationLevel i) = Some tip"
    using a by (auto simp add: automationValues_def automationTips_def)
  define pips where "pips = (NumberToString (stopLossPips i),
                        toFixed (js_mul (stopLossPips i) (takeProfitMultiplier i)) 0)"
  consider "profile i = ''Scalping''" | "profile i = ''Day Trade''" | "profile i = ''Swing''"
    using p by (auto simp add: profileValues_def)
  then have pv: "pips = (''8'', ''10'') \<or> pips = (''20'', ''40'') \<or> pips = (''45'', ''126'')"
  proof cases
    case 1
    then have "stopLossPips i = Fin 8" "takeProfitMultiplier i = fl (12 / 10)"
      unfolding stopLossPips_def takeProfitMultiplier_def by simp_all
    then show ?thesis
      unfolding pips_def by (simp only: pips_strings simp_thms)
  next
    case 2
    then have "stopLossPips i = Fin 20" "takeProfitMultiplier i = Fin 2"
      unfolding stopLossPips_def takeProfitMultiplier_def by simp_all
    then show ?thesis
      unfolding pips_def by (simp only: pips_strings simp_thms)
  next
    case 3
    then have "stopLossPips i = Fin 45" "takeProfitMultiplier i = fl (28 / 10)"
      unfolding stopLossPips_def takeProfitMultiplier_def by simp_all
    then show ?thesis
      unfolding pips_def by (simp only: pips_strings simp_thms)
  qed
  have r: "result (handleGenerate em st) = Some
                  (''Estrat'' @ [CHR 0xC3, CHR 0xA9] @ ''gia '' @ profile i @ '' '' @ session i
                     @ [CHR 0x0A]
                   @ ''- Indicadores principais: '' @ join '', '' (indicators i) @ [CHR 0x0A]
                   @ ''- Sess'' @ [CHR 0xC3, CHR 0xA3] @ ''o: '' @ characteristics @ [CHR 0x0A]
                   @ ''- Risco por trade: '' @ toFixed (riskPerTrade i) 2 @ ''% (''
                     @ toFixed (riskCapital i) 2 @ '' USD)'' @ [CHR 0x0A]
                   @ ''- Stop loss m'' @ [CHR 0xC3, CHR 0xA9] @ ''dio: '' @ fst pips
                     @ '' pips | Take profit: '' @ snd pips @ '' pips'' @ [CHR 0x0A]
                   @ ''- Lote sugerido: '' @ NumberToString (lotSize i) @ '' mini lotes''
                     @ [CHR 0x0A]
                   @ ''- Observa'' @ [CHR 0xC3, CHR 0xA7, CHR 0xC3, CHR 0xA3] @ ''o: ''
                     @ riskNote @ '' '' @ tip)"
    unfolding handleGenerate_Inr[OF assms] buildStrategy_def sc rn at pips_def
    by (simp add: interp_def)
  have e: "error (handleGenerate em st) = None"
    by (simp add: handleGenerate_Inr[OF assms])
  have d1: "isDecimal 2 (toFixed (riskPerTrade i) 2)"
    using assms by (rule riskPerTrade_decimal)
  have d2: "\<forall>q. riskCapital i = Fin q \<and> q < 1000000000000000000000
               \<longrightarrow> isDecimal 2 (toFixed (riskCapital i) 2)"
  proof (intro allI impI)
    fix q assume q: "riskCapital i = Fin q \<and> q < 1000000000000000000000"
    then have "0 \<le> q"
      using riskCapital_nonneg[OF assms] by blast
    then show "isDecimal 2 (toFixed (riskCapital i) 2)"
      using q toFixed_isDecimal by simp
  qed
  from sc rn at pv r pips_def have "\<exists>characteristics riskNote tip pips.
               sessionCharacteristics (session i) = Some characteristics
             \<and> riskNotes (profile i) = Some riskNote
             \<and> automationTips (automationLevel i) = Some tip
             \<and> pips = (NumberToString (stopLossPips i),
                        toFixed (js_mul (stopLossPips i) (takeProfitMultiplier i)) 0)
             \<and> (pips = (''8'', ''10'') \<or> pips = (''20'', ''40'') \<or> pips = (''45'', ''126''))
             \<and> result (handleGenerate em st) = Some
                  (''Estrat'' @ [CHR 0xC3, CHR 0xA9] @ ''gia '' @ profile i @ '' '' @ session i
                     @ [CHR 0x0A]
                   @ ''- Indicadores principais: '' @ join '', '' (indicators i) @ [CHR 0x0A]
                   @ ''- Sess'' @ [CHR 0xC3, CHR 0xA3] @ ''o: '' @ characteristics @ [CHR 0x0A]
                   @ ''- Risco por trade: '' @ toFixed (riskPerTrade i) 2 @ ''% (''
                     @ toFixed (riskCapital i) 2 @ '' USD)'' @ [CHR 0x0A]
                   @ ''- Stop loss m'' @ [CHR 0xC3, CHR 0xA9] @ ''dio: '' @ fst pips
                     @ '' pips | Take profit: '' @ snd pips @ '' pips'' @ [CHR 0x0A]
                   @ ''- Lote sugerido: '' @ NumberToString (lotSize i) @ '' mini lotes''
                     @ [CHR 0x0A]
                   @ ''- Observa'' @ [CHR 0xC3, CHR 0xA7, CHR 0xC3, CHR 0xA3] @ ''o: ''
                     @ riskNote @ '' '' @ tip)"
    by blast
  then show ?thesis
    using e f d1 d2 by blast
qed

section \<open>Claims\<close>

text \<open>
  C1 (as amended). The schema declares the indicators as an array of at least one string
  and never consults the catalog \<open>indicatorOptions\<close>, which only feeds the check boxes.
  So an accepted input has a non-empty array of strings as its indicators, and replacing
  them by any other non-empty array of strings, in the catalog or not, is accepted too.
\<close>

theorem C1_indicators_any_strings:
  assumes "strategySchema d = Inr i"
  shows "d ''indicators'' = JArr (map JStr (indicators i)) \<and> indicators i \<noteq> []
         \<and> (\<forall>ys. ys \<noteq> [] \<longrightarrow>
               strategySchema (d(''indicators'' := JArr (map JStr ys)))
                 = Inr (i\<lparr>indicators := ys\<rparr>))"
  using assms by (simp add: strategySchema_Inr_iff)

theorem C1_witness:
  "strategySchema defaultState =
     Inr \<lparr>profile = ''Day Trade'', capital = Fin 1000, riskPerTrade = Fin 1,
          indicators = [indicatorOptions ! 0, indicatorOptions ! 1], session = ''Londres'',
          automationLevel = ''Semi-Aut'' @ [CHR 0xC3, CHR 0xB4] @ ''nomo''\<rparr>
   \<and> defaultState ''indicators'' = JArr [JStr (indicatorOptions ! 0), JStr (indicatorOptions ! 1)]
   \<and> strategySchema (defaultState(''indicators'' := JArr [JStr ''MACD'', JStr ''my own signal'']))
       = Inr \<lparr>profile = ''Day Trade'', capital = Fin 1000, riskPerTrade = Fin 1,
          indicators = [''MACD'', ''my own signal''], session = ''Londres'',
          automationLevel = ''Semi-Aut'' @ [CHR 0xC3, CHR 0xB4] @ ''nomo''\<rparr>"
proof -
  from C1_indicators_any_strings[OF strategySchema_defaultState]
  have a: "defaultState ''indicators''
      = JArr [JStr (indicatorOptions ! 0), JStr (indicatorOptions ! 1)]"
    and b: "\<forall>ys. ys \<noteq> [] \<longrightarrow>
      strategySchema (defaultState(''indicators'' := JArr (map JStr ys)))
        = Inr \<lparr>profile = ''Day Trade'', capital = Fin 1000, riskPerTrade = Fin 1,
          indicators = ys, session = ''Londres'',
          automationLevel = ''Semi-Aut'' @ [CHR 0xC3, CHR 0xB4] @ ''nomo''\<rparr>"
    by simp_all
  from b[THEN spec, of "[''MACD'', ''my own signal'']"]
  show ?thesis
    using a strategySchema_defaultState by simp
qed

text \<open>
  C1 as stated fails: the indicator \<open>EMA\<close> of the specification's own numeric
  scenario is not an entry of the catalog, and the input is accepted.
\<close>

theorem C1_counterexample:
  "strategySchema (defaultState(''indicators'' := JArr [JStr ''EMA'']))
     = Inr \<lparr>profile = ''Day Trade'', capital = Fin 1000, riskPerTrade = Fin 1,
          indicators = [''EMA''], session = ''Londres'',
          automationLevel = ''Semi-Aut'' @ [CHR 0xC3, CHR 0xB4] @ ''nomo''\<rparr>
   \<and> ''EMA'' \<notin> set indicatorOptions"
  by (simp add: strategySchema_Inr_iff defaultState_simps profileValues_def sessionValues_def
      automationValues_def js_le_def fl_tenth indicatorOptions_def)

text \<open>
  C2 (as amended). Whenever the capital of the input is a number below 100, the parse
  fails with the issue of the lower bound of capital among its issues, the handler reports
  an error and builds no report, whatever the other fields are. The message shown is
  the one of that issue when the profile is valid; the fields after capital do not matter.
\<close>

theorem C2_capital_below_minimum:
  assumes "currentState st ''capital'' = JNum c" and "js_lt c (Fin 100)"
  shows "\<exists>issues. strategySchema (currentState st) = Inl issues
           \<and> too_small NumberSize (Fin 100) True [Key ''capital''] \<in> set issues
           \<and> error (handleGenerate em st) = Some (em (hd issues))
           \<and> result (handleGenerate em st) = result st
           \<and> (ruleHolds (currentState st) ''profile''
                \<longrightarrow> hd issues = too_small NumberSize (Fin 100) True [Key ''capital''])"
proof (cases "strategySchema (currentState st)")
  case (Inr i)
  then have "js_le (Fin 100) c"
    using assms(1) by (auto simp add: strategySchema_Inr_iff)
  then show ?thesis
    using assms(2) by (simp add: js_le_Fin_left)
next
  case (Inl issues)
  have "c \<noteq> NaN"
    using assms(2) by auto
  then have n: "fst (z_number [Min (Fin 100)] [Key ''capital''] (currentState st ''capital''))
             = [too_small NumberSize (Fin 100) True [Key ''capital'']]"
    unfolding assms(1) using assms(2) by (simp add: z_number_ok)
  note eq = strategySchema_Inl(2)[OF Inl, unfolded n]
  have "too_small NumberSize (Fin 100) True [Key ''capital''] \<in> set issues"
    by (subst eq) simp
  moreover have "ruleHolds (currentState st) ''profile''
      \<longrightarrow> hd issues = too_small NumberSize (Fin 100) True [Key ''capital'']"
    by (subst eq) (simp add: ruleHolds_profile)
  ultimately show ?thesis
    using Inl by (simp add: handleGenerate_Inl)
qed

theorem C2_witness:
  "currentState
      \<lparr>form = Some (defaultState(''capital'' := JNum (Fin 50), ''indicators'' := JArr [])),
        error = None, result = Some ''previous''\<rparr> ''capital'' = JNum (Fin 50)
   \<and> js_lt (Fin 50) (Fin 100)
   \<and> error (handleGenerate zod3ErrorMap
      \<lparr>form = Some (defaultState(''capital'' := JNum (Fin 50), ''indicators'' := JArr [])),
        error = None, result = Some ''previous''\<rparr>)
       = Some ''Number must be greater than or equal to 100''
   \<and> result (handleGenerate zod3ErrorMap
      \<lparr>form = Some (defaultState(''capital'' := JNum (Fin 50), ''indicators'' := JArr [])),
        error = None, result = Some ''previous''\<rparr>) = Some ''previous''"
proof -
  let ?st = "\<lparr>form = Some (defaultState(''capital'' := JNum (Fin 50), ''indicators'' := JArr [])),
        error = None, result = Some ''previous''\<rparr>"
  have h1: "currentState ?st ''capital'' = JNum (Fin 50)"
    by (simp add: currentState_def)
  have h2: "js_lt (Fin 50) (Fin 100)"
    by simp
  have p: "ruleHolds (currentState ?st) ''profile''"
    by (simp add: currentState_def ruleHolds_def defaultState_simps profileValues_def)
  have msg: "zod3ErrorMap (too_small NumberSize (Fin 100) True [Key ''capital''])
      = ''Number must be greater than or equal to 100''"
    by code_simp
  from C2_capital_below_minimum[OF h1 h2, of zod3ErrorMap] p
  obtain issues where e: "error (handleGenerate zod3ErrorMap ?st) = Some (zod3ErrorMap (hd issues))"
    and r: "result (handleGenerate zod3ErrorMap ?st) = result ?st"
    and i: "hd issues = too_small NumberSize (Fin 100) True [Key ''capital'']"
    by blast
  have "error (handleGenerate zod3ErrorMap ?st)
      = Some ''Number must be greater than or equal to 100''"
    unfolding e i by (simp only: msg)
  then show ?thesis
    using h1 h2 r by simp
qed

text \<open>
  C2 as stated fails when the profile is invalid too: the first issue is then the
  one of the profile, and its message is the one shown.
\<close>

theorem C2_counterexample:
  "currentState
      \<lparr>form = Some (defaultState(''profile'' := JStr ''X'', ''capital'' := JNum (Fin 50))),
        error = None, result = None\<rparr> ''capital'' = JNum (Fin 50)
   \<and> js_lt (Fin 50) (Fin 100)
   \<and> error (handleGenerate zod3ErrorMap
      \<lparr>form = Some (defaultState(''profile'' := JStr ''X'', ''capital'' := JNum (Fin 50))),
        error = None, result = None\<rparr>)
       = Some (zod3ErrorMap (invalid_enum_value profileValues ''X'' [Key ''profile'']))
   \<and> zod3ErrorMap (invalid_enum_value profileValues ''X'' [Key ''profile''])
       = ''Invalid enum value. Expected '' @ [CHR 0x27] @ ''Scalping'' @ [CHR 0x27] @ '' | ''
           @ [CHR 0x27] @ ''Day Trade'' @ [CHR 0x27] @ '' | '' @ [CHR 0x27] @ ''Swing''
           @ [CHR 0x27] @ '', received '' @ [CHR 0x27] @ ''X'' @ [CHR 0x27]
   \<and> zod3ErrorMap (invalid_enum_value profileValues ''X'' [Key ''profile''])
       \<noteq> zod3ErrorMap (too_small NumberSize (Fin 100) True [Key ''capital''])"
  by code_simp




text \<open>
  C4. The scenario of the specification: a Day Trade profile (\<open>Day Trade\<close> in the
  code), capital 1000, risk 1, the single indicator EMA, the London session
  (\<open>Londres\<close>) and the semi-autonomous level. The parse succeeds; the risk capital
  is 10 and prints as 10.00, the stop loss is 20 pips, the take profit 40 pips, the lot
  size the double 0.33, printed as 0.33; the handler clears the error and stores the
  report below.
\<close>

theorem C4_day_trade_scenario:
  "strategySchema (obj
       [(''profile'', JStr ''Day Trade''), (''capital'', JNum (Fin 1000)),
        (''riskPerTrade'', JNum (Fin 1)), (''indicators'', JArr [JStr ''EMA'']),
        (''session'', JStr ''Londres''),
        (''automationLevel'', JStr (''Semi-Aut'' @ [CHR 0xC3, CHR 0xB4] @ ''nomo''))])
     = Inr \<lparr>profile = ''Day Trade'', capital = Fin 1000, riskPerTrade = Fin 1,
            indicators = [''EMA''], session = ''Londres'',
            automationLevel = ''Semi-Aut'' @ [CHR 0xC3, CHR 0xB4] @ ''nomo''\<rparr>
   \<and> riskCapital \<lparr>profile = ''Day Trade'', capital = Fin 1000, riskPerTrade = Fin 1,
            indicators = [''EMA''], session = ''Londres'',
            automationLevel = ''Semi-Aut'' @ [CHR 0xC3, CHR 0xB4] @ ''nomo''\<rparr> = Fin 10
   \<and> stopLossPips \<lparr>profile = ''Day Trade'', capital = Fin 1000, riskPerTrade = Fin 1,
            indicators = [''EMA''], session = ''Londres'',
            automationLevel = ''Semi-Aut'' @ [CHR 0xC3, CHR 0xB4] @ ''nomo''\<rparr> = Fin 20
   \<and> js_mul (Fin 20)
         (takeProfitMultiplier \<lparr>profile = ''Day Trade'', capital = Fin 1000,
            riskPerTrade = Fin 1, indicators = [''EMA''], session = ''Londres'',
            automationLevel = ''Semi-Aut'' @ [CHR 0xC3, CHR 0xB4] @ ''nomo''\<rparr>) = Fin 40
   \<and> lotSize \<lparr>profile = ''Day Trade'', capital = Fin 1000, riskPerTrade = Fin 1,
            indicators = [''EMA''], session = ''Londres'',
            automationLevel = ''Semi-Aut'' @ [CHR 0xC3, CHR 0xB4] @ ''nomo''\<rparr> = fl (33 / 100)
   \<and> NumberToString (fl (33 / 100)) = ''0.33''
   \<and> handleGenerate em
        \<lparr>form = Some (obj
           [(''profile'', JStr ''Day Trade''), (''capital'', JNum (Fin 1000)),
            (''riskPerTrade'', JNum (Fin 1)), (''indicators'', JArr [JStr ''EMA'']),
            (''session'', JStr ''Londres''),
            (''automationLevel'', JStr (''Semi-Aut'' @ [CHR 0xC3, CHR 0xB4] @ ''nomo''))]),
         error = e, result = r\<rparr>
     = \<lparr>form = Some (obj
           [(''profile'', JStr ''Day Trade''), (''capital'', JNum (Fin 1000)),
            (''riskPerTrade'', JNum (Fin 1)), (''indicators'', JArr [JStr ''EMA'']),
            (''session'', JStr ''Londres''),
            (''automationLevel'', JStr (''Semi-Aut'' @ [CHR 0xC3, CHR 0xB4] @ ''nomo''))]),
         error = None,
         result = Some
          (''Estrat'' @ [CHR 0xC3, CHR 0xA9] @ ''gia Day Trade Londres'' @ [CHR 0x0A]
           @ ''- Indicadores principais: EMA'' @ [CHR 0x0A]
           @ ''- Sess'' @ [CHR 0xC3, CHR 0xA3]
             @ ''o: Alta liquidez em pares EUR/GBP, volatilidade consistente.'' @ [CHR 0x0A]
           @ ''- Risco por trade: 1.00% (10.00 USD)'' @ [CHR 0x0A]
           @ ''- Stop loss m'' @ [CHR 0xC3, CHR 0xA9]
             @ ''dio: 20 pips | Take profit: 40 pips'' @ [CHR 0x0A]
           @ ''- Lote sugerido: 0.33 mini lotes'' @ [CHR 0x0A]
           @ ''- Observa'' @ [CHR 0xC3, CHR 0xA7, CHR 0xC3, CHR 0xA3] @ ''o: Combine confirma''
             @ [CHR 0xC3, CHR 0xA7, CHR 0xC3, CHR 0xA3] @ ''o de tend'' @ [CHR 0xC3, CHR 0xAA]
             @ ''ncia com filtro de volatilidade. Automatize entradas/sa'' @ [CHR 0xC3, CHR 0xAD]
             @ ''das e mantenha supervis'' @ [CHR 0xC3, CHR 0xA3]
             @ ''o humana para ajustes.'')\<rparr>"
proof -
  let ?in = "obj
       [(''profile'', JStr ''Day Trade''), (''capital'', JNum (Fin 1000)),
        (''riskPerTrade'', JNum (Fin 1)), (''indicators'', JArr [JStr ''EMA'']),
        (''session'', JStr ''Londres''),
        (''automationLevel'', JStr (''Semi-Aut'' @ [CHR 0xC3, CHR 0xB4] @ ''nomo''))]"
  let ?p = "\<lparr>profile = ''Day Trade'', capital = Fin 1000, riskPerTrade = Fin 1,
            indicators = [''EMA''], session = ''Londres'',
            automationLevel = ''Semi-Aut'' @ [CHR 0xC3, CHR 0xB4] @ ''nomo''\<rparr>"
  have parse: "strategySchema ?in = Inr ?p"
    by code_simp
  have rc: "riskCapital ?p = Fin 10"
    by code_simp
  have sl: "stopLossPips ?p = Fin 20"
    by code_simp
  have tp: "js_mul (Fin 20) (takeProfitMultiplier ?p) = Fin 40"
    by code_simp
  have ls: "lotSize ?p = fl (33 / 100)"
    by code_simp
  have str: "NumberToString (fl (33 / 100)) = ''0.33''"
    by code_simp
  have report: "buildStrategy ?p =
           ''Estrat'' @ [CHR 0xC3, CHR 0xA9] @ ''gia Day Trade Londres'' @ [CHR 0x0A]
           @ ''- Indicadores principais: EMA'' @ [CHR 0x0A]
           @ ''- Sess'' @ [CHR 0xC3, CHR 0xA3]
             @ ''o: Alta liquidez em pares EUR/GBP, volatilidade consistente.'' @ [CHR 0x0A]
           @ ''- Risco por trade: 1.00% (10.00 USD)'' @ [CHR 0x0A]
           @ ''- Stop loss m'' @ [CHR 0xC3, CHR 0xA9]
             @ ''dio: 20 pips | Take profit: 40 pips'' @ [CHR 0x0A]
           @ ''- Lote sugerido: 0.33 mini lotes'' @ [CHR 0x0A]
           @ ''- Observa'' @ [CHR 0xC3, CHR 0xA7, CHR 0xC3, CHR 0xA3] @ ''o: Combine confirma''
             @ [CHR 0xC3, CHR 0xA7, CHR 0xC3, CHR 0xA3] @ ''o de tend'' @ [CHR 0xC3, CHR 0xAA]
             @ ''ncia com filtro de volatilidade. Automatize entradas/sa'' @ [CHR 0xC3, CHR 0xAD]
             @ ''das e mantenha supervis'' @ [CHR 0xC3, CHR 0xA3]
             @ ''o humana para ajustes.''"
    by code_simp
  have gen: "handleGenerate em \<lparr>form = Some ?in, error = e, result = r\<rparr>
      = \<lparr>form = Some ?in, error = None, result = Some (buildStrategy ?p)\<rparr>"
    using parse by (simp add: handleGenerate_def currentState_def)
  show ?thesis
    unfolding gen report[symmetric] using parse rc sl tp ls str by simp
qed

text \<open>
  C5. For every accepted input with the Scalping profile, capital 2000 and risk 2, whatever
  its indicators, session and automation level: the risk capital is 40 and prints as
  40.00; the stop loss is 8; the take profit \<open>8 * 1.2\<close> is the double 9.6, which
  \<open>toFixed(0)\<close> prints as 10; the lot size is the double 3.33, printed as 3.33; and the
  handler clears the error and stores the report with these figures.
\<close>

theorem C5_scalping_scenario:
  assumes "strategySchema (currentState st) = Inr i"
    and "currentState st ''profile'' = JStr ''Scalping''"
    and "currentState st ''capital'' = JNum (Fin 2000)"
    and "currentState st ''riskPerTrade'' = JNum (Fin 2)"
  shows "riskCapital i = Fin 40 \<and> toFixed (riskCapital i) 2 = ''40.00''
         \<and> stopLossPips i = Fin 8
         \<and> js_mul (stopLossPips i) (takeProfitMultiplier i) = fl (96 / 10)
         \<and> toFixed (js_mul (stopLossPips i) (takeProfitMultiplier i)) 0 = ''10''
         \<and> lotSize i = fl (333 / 100) \<and> NumberToString (lotSize i) = ''3.33''
         \<and> error (handleGenerate em st) = None
         \<and> result (handleGenerate em st) = Some
              (''Estrat'' @ [CHR 0xC3, CHR 0xA9] @ ''gia Scalping '' @ session i @ [CHR 0x0A]
               @ ''- Indicadores principais: '' @ join '', '' (indicators i) @ [CHR 0x0A]
               @ ''- Sess'' @ [CHR 0xC3, CHR 0xA3] @ ''o: ''
                 @ interp (sessionCharacteristics (session i)) @ [CHR 0x0A]
               @ ''- Risco por trade: 2.00% (40.00 USD)'' @ [CHR 0x0A]
               @ ''- Stop loss m'' @ [CHR 0xC3, CHR 0xA9]
                 @ ''dio: 8 pips | Take profit: 10 pips'' @ [CHR 0x0A]
               @ ''- Lote sugerido: 3.33 mini lotes'' @ [CHR 0x0A]
               @ ''- Observa'' @ [CHR 0xC3, CHR 0xA7, CHR 0xC3, CHR 0xA3]
                 @ ''o: Aproveite spreads baixos e priorize execu''
                 @ [CHR 0xC3, CHR 0xA7, CHR 0xC3, CHR 0xA3] @ ''o em contas ECN. ''
                 @ interp (automationTips (automationLevel i)))"
proof -
  have p: "profile i = ''Scalping''" and c: "capital i = Fin 2000"
    and k: "riskPerTrade i = Fin 2"
    using assms by (simp_all add: strategySchema_Inr_iff)
  have e1: "js_div (js_mul (Fin 2000) (Fin 2)) (Fin 100) = Fin 40"
    by code_simp
  have e2: "toFixed (Fin 40) 2 = ''40.00''" "toFixed (Fin 2) 2 = ''2.00''"
    by code_simp+
  have e3: "NumberToString (Fin 8) = ''8''"
    by code_simp
  have e4: "js_mul (Fin 8) (fl (12 / 10)) = fl (96 / 10)"
    by code_simp
  have e5: "toFixed (fl (96 / 10)) 0 = ''10''"
    by code_simp
  have e6: "Number (toFixed (js_div (Fin 40) (js_mul (Fin 8) (fl (15 / 10)))) 2) = fl (333 / 100)"
    by code_simp
  have e7: "NumberToString (fl (333 / 100)) = ''3.33''"
    by code_simp
  have e8: "interp (riskNotes ''Scalping'')
      = ''Aproveite spreads baixos e priorize execu''
        @ [CHR 0xC3, CHR 0xA7, CHR 0xC3, CHR 0xA3] @ ''o em contas ECN.''"
    by (simp add: riskNotes_def interp_def)
  have rc: "riskCapital i = Fin 40"
    unfolding riskCapital_def c k by (rule e1)
  have sl: "stopLossPips i = Fin 8"
    unfolding stopLossPips_def p by simp
  have tm: "takeProfitMultiplier i = fl (12 / 10)"
    unfolding takeProfitMultiplier_def p by simp
  have tp: "js_mul (stopLossPips i) (takeProfitMultiplier i) = fl (96 / 10)"
    unfolding sl tm by (rule e4)
  have ls: "lotSize i = fl (333 / 100)"
    unfolding lotSize_def rc sl by (rule e6)
  have rcs: "toFixed (riskCapital i) 2 = ''40.00''"
    unfolding rc by (rule e2(1))
  have tps: "toFixed (js_mul (stopLossPips i) (takeProfitMultiplier i)) 0 = ''10''"
    unfolding tp by (rule e5)
  have lss: "NumberToString (lotSize i) = ''3.33''"
    unfolding ls by (rule e7)
  have report: "buildStrategy i =
               ''Estrat'' @ [CHR 0xC3, CHR 0xA9] @ ''gia Scalping '' @ session i @ [CHR 0x0A]
               @ ''- Indicadores principais: '' @ join '', '' (indicators i) @ [CHR 0x0A]
               @ ''- Sess'' @ [CHR 0xC3, CHR 0xA3] @ ''o: ''
                 @ interp (sessionCharacteristics (session i)) @ [CHR 0x0A]
               @ ''- Risco por trade: 2.00% (40.00 USD)'' @ [CHR 0x0A]
               @ ''- Stop loss m'' @ [CHR 0xC3, CHR 0xA9]
                 @ ''dio: 8 pips | Take profit: 10 pips'' @ [CHR 0x0A]
               @ ''- Lote sugerido: 3.33 mini lotes'' @ [CHR 0x0A]
               @ ''- Observa'' @ [CHR 0xC3, CHR 0xA7, CHR 0xC3, CHR 0xA3]
                 @ ''o: Aproveite spreads baixos e priorize execu''
                 @ [CHR 0xC3, CHR 0xA7, CHR 0xC3, CHR 0xA3] @ ''o em contas ECN. ''
                 @ interp (automationTips (automationLevel i))"
    unfolding buildStrategy_def
    unfolding rcs tps lss
    unfolding sl k p e2 e3 e8 by simp
  have "error (handleGenerate em st) = None"
    "result (handleGenerate em st) = Some (buildStrategy i)"
    by (simp_all add: handleGenerate_Inr[OF assms(1)])
  then show ?thesis
    unfolding report using rc rcs sl tp tps ls lss by blast
qed

theorem C5_witness:
  "strategySchema (currentState
      \<lparr>form = Some (defaultState(''profile'' := JStr ''Scalping'',
          ''capital'' := JNum (Fin 2000), ''riskPerTrade'' := JNum (Fin 2))),
        error = Some ''old'', result = None\<rparr>)
     = Inr \<lparr>profile = ''Scalping'', capital = Fin 2000, riskPerTrade = Fin 2,
          indicators = [indicatorOptions ! 0, indicatorOptions ! 1], session = ''Londres'',
          automationLevel = ''Semi-Aut'' @ [CHR 0xC3, CHR 0xB4] @ ''nomo''\<rparr>
   \<and> toFixed (riskCapital \<lparr>profile = ''Scalping'', capital = Fin 2000, riskPerTrade = Fin 2,
          indicators = [indicatorOptions ! 0, indicatorOptions ! 1], session = ''Londres'',
          automationLevel = ''Semi-Aut'' @ [CHR 0xC3, CHR 0xB4] @ ''nomo''\<rparr>) 2 = ''40.00''
   \<and> NumberToString (lotSize \<lparr>profile = ''Scalping'', capital = Fin 2000, riskPerTrade = Fin 2,
          indicators = [indicatorOptions ! 0, indicatorOptions ! 1], session = ''Londres'',
          automationLevel = ''Semi-Aut'' @ [CHR 0xC3, CHR 0xB4] @ ''nomo''\<rparr>) = ''3.33''
   \<and> error (handleGenerate zod3ErrorMap
      \<lparr>form = Some (defaultState(''profile'' := JStr ''Scalping'',
          ''capital'' := JNum (Fin 2000), ''riskPerTrade'' := JNum (Fin 2))),
        error = Some ''old'', result = None\<rparr>) = None"
proof -
  let ?st = "\<lparr>form = Some (defaultState(''profile'' := JStr ''Scalping'',
          ''capital'' := JNum (Fin 2000), ''riskPerTrade'' := JNum (Fin 2))),
        error = Some ''old'', result = None\<rparr>"
  have h: "strategySchema (currentState ?st)
     = Inr \<lparr>profile = ''Scalping'', capital = Fin 2000, riskPerTrade = Fin 2,
          indicators = [indicatorOptions ! 0, indicatorOptions ! 1], session = ''Londres'',
          automationLevel = ''Semi-Aut'' @ [CHR 0xC3, CHR 0xB4] @ ''nomo''\<rparr>"
    by (simp add: currentState_def strategySchema_Inr_iff defaultState_simps profileValues_def
      sessionValues_def automationValues_def js_le_def fl_tenth)
  have f: "currentState ?st ''profile'' = JStr ''Scalping''"
    "currentState ?st ''capital'' = JNum (Fin 2000)"
    "currentState ?st ''riskPerTrade'' = JNum (Fin 2)"
    by (simp_all add: currentState_def)
  from C5_scalping_scenario[OF h f, of zod3ErrorMap] h
  show ?thesis
    by blast
qed

text \<open>
  C6. The bounds of riskPerTrade are inclusive. In an accepted input, replacing the risk
  by 5 or by 0.1 gives an accepted input; replacing it by 5.1 or by 0.09 gives a rejected
  one, with the issue of the bound that is broken as the only issue. The literals are the
  doubles nearest to the decimal fractions.
\<close>

theorem C6_risk_bounds_inclusive:
  assumes "strategySchema d = Inr i"
  shows "strategySchema (d(''riskPerTrade'' := JNum (Fin 5))) = Inr (i\<lparr>riskPerTrade := Fin 5\<rparr>)
         \<and> strategySchema (d(''riskPerTrade'' := JNum (fl (1 / 10))))
             = Inr (i\<lparr>riskPerTrade := fl (1 / 10)\<rparr>)
         \<and> strategySchema (d(''riskPerTrade'' := JNum (fl (51 / 10))))
             = Inl [too_big NumberSize (Fin 5) True [Key ''riskPerTrade'']]
         \<and> strategySchema (d(''riskPerTrade'' := JNum (fl (9 / 100))))
             = Inl [too_small NumberSize (fl (1 / 10)) True [Key ''riskPerTrade'']]"
proof -
  have v51: "fl (51 / 10) = Fin (2871044762448691 / 562949953421312)"
    by code_simp
  have v009: "fl (9 / 100) = Fin (3242591731706757 / 36028797018963968)"
    by code_simp
  have ok: "strategySchema (d(''riskPerTrade'' := JNum (Fin 5))) = Inr (i\<lparr>riskPerTrade := Fin 5\<rparr>)"
    "strategySchema (d(''riskPerTrade'' := JNum (fl (1 / 10)))) = Inr (i\<lparr>riskPerTrade := fl (1 / 10)\<rparr>)"
    using assms by (simp_all add: strategySchema_Inr_iff fl_tenth js_le_def)
  let ?p = "z_enum profileValues [Key ''profile''] (d ''profile'')"
  let ?c = "z_number [Min (Fin 100)] [Key ''capital''] (d ''capital'')"
  let ?n = "z_array z_string 1 [Key ''indicators''] (d ''indicators'')"
  let ?s = "z_enum sessionValues [Key ''session''] (d ''session'')"
  let ?a = "z_enum automationValues [Key ''automationLevel''] (d ''automationLevel'')"
  have f: "fst ?p = []" "fst ?c = []" "fst ?n = []" "fst ?s = []" "fst ?a = []"
    using assms
    by (auto simp add: strategySchema_Inr_iff z_enum_fst capital_fst z_array_string_fst
        list_all_isString_map Suc_le_eq)
  have s: "snd ?p = Some (profile i)" "snd ?c = Some (capital i)" "snd ?n = Some (indicators i)"
    "snd ?s = Some (session i)" "snd ?a = Some (automationLevel i)"
    using assms js_le_not_NaN[of "Fin 100" "capital i"]
    by (auto simp add: strategySchema_Inr_iff z_enum_snd z_number_snd z_array_string_snd)
  have big: "z_number [Min (fl (1 / 10)), Max (Fin 5)] [Key ''riskPerTrade''] (JNum (fl (51 / 10)))
      = ([too_big NumberSize (Fin 5) True [Key ''riskPerTrade'']], Some (fl (51 / 10)))"
    by (simp add: z_number_def v51 fl_tenth js_gt_def)
  have small: "z_number [Min (fl (1 / 10)), Max (Fin 5)] [Key ''riskPerTrade''] (JNum (fl (9 / 100)))
      = ([too_small NumberSize (fl (1 / 10)) True [Key ''riskPerTrade'']], Some (fl (9 / 100)))"
    by (simp add: z_number_def v009 fl_tenth js_gt_def)
  have u: "(d(''riskPerTrade'' := v)) ''profile'' = d ''profile''"
    "(d(''riskPerTrade'' := v)) ''capital'' = d ''capital''"
    "(d(''riskPerTrade'' := v)) ''riskPerTrade'' = v"
    "(d(''riskPerTrade'' := v)) ''indicators'' = d ''indicators''"
    "(d(''riskPerTrade'' := v)) ''session'' = d ''session''"
    "(d(''riskPerTrade'' := v)) ''automationLevel'' = d ''automationLevel''" for v
    by simp_all
  have "strategySchema (d(''riskPerTrade'' := JNum (fl (51 / 10))))
             = Inl [too_big NumberSize (Fin 5) True [Key ''riskPerTrade'']]"
    unfolding strategySchema_def Let_def u f s big by simp
  moreover have "strategySchema (d(''riskPerTrade'' := JNum (fl (9 / 100))))
             = Inl [too_small NumberSize (fl (1 / 10)) True [Key ''riskPerTrade'']]"
    unfolding strategySchema_def Let_def u f s small by simp
  ultimately show ?thesis
    using ok by simp
qed

theorem C6_witness:
  "strategySchema (defaultState(''riskPerTrade'' := JNum (Fin 5)))
     = Inr \<lparr>profile = ''Day Trade'', capital = Fin 1000, riskPerTrade = Fin 5,
          indicators = [indicatorOptions ! 0, indicatorOptions ! 1], session = ''Londres'',
          automationLevel = ''Semi-Aut'' @ [CHR 0xC3, CHR 0xB4] @ ''nomo''\<rparr>
   \<and> strategySchema (defaultState(''riskPerTrade'' := JNum (fl (1 / 10))))
     = Inr \<lparr>profile = ''Day Trade'', capital = Fin 1000, riskPerTrade = fl (1 / 10),
          indicators = [indicatorOptions ! 0, indicatorOptions ! 1], session = ''Londres'',
          automationLevel = ''Semi-Aut'' @ [CHR 0xC3, CHR 0xB4] @ ''nomo''\<rparr>
   \<and> strategySchema (defaultState(''riskPerTrade'' := JNum (fl (51 / 10))))
     = Inl [too_big NumberSize (Fin 5) True [Key ''riskPerTrade'']]
   \<and> strategySchema (defaultState(''riskPerTrade'' := JNum (fl (9 / 100))))
     = Inl [too_small NumberSize (fl (1 / 10)) True [Key ''riskPerTrade'']]"
  using C6_risk_bounds_inclusive[OF strategySchema_defaultState]
  by simp

text \<open>
  C7. The code breaks the claim on large amounts. The text \<open>1.6e23\<close> in the capital
  field is stored as that number; with the risk of 1 the input is accepted and the amount
  is \<open>1.6e21\<close>, which \<open>toFixed(2)\<close> prints in exponent notation, so the risk
  line of the stored report shows the amount without two decimals.
\<close>

theorem C7_large_amount_not_two_decimals:
  "parseNumber ''1.6e23'' (Fin 1000) = Fin 160000000000000000000000
   \<and> strategySchema (defaultState(''capital'' := JNum (Fin 160000000000000000000000)))
     = Inr \<lparr>profile = ''Day Trade'', capital = Fin 160000000000000000000000,
          riskPerTrade = Fin 1, indicators = [indicatorOptions ! 0, indicatorOptions ! 1],
          session = ''Londres'',
          automationLevel = ''Semi-Aut'' @ [CHR 0xC3, CHR 0xB4] @ ''nomo''\<rparr>
   \<and> riskCapital \<lparr>profile = ''Day Trade'', capital = Fin 160000000000000000000000,
          riskPerTrade = Fin 1, indicators = [indicatorOptions ! 0, indicatorOptions ! 1],
          session = ''Londres'',
          automationLevel = ''Semi-Aut'' @ [CHR 0xC3, CHR 0xB4] @ ''nomo''\<rparr>
       = Fin 1600000000000000000000
   \<and> toFixed (Fin 1600000000000000000000) 2 = ''1.6e+21''
   \<and> \<not> isDecimal 2 ''1.6e+21''
   \<and> result (handleGenerate zod3ErrorMap
        \<lparr>form = Some (defaultState(''capital'' := JNum (Fin 160000000000000000000000))),
          error = None, result = None\<rparr>)
     = Some
          (''Estrat'' @ [CHR 0xC3, CHR 0xA9] @ ''gia Day Trade Londres'' @ [CHR 0x0A]
           @ ''- Indicadores principais: M'' @ [CHR 0xC3, CHR 0xA9] @ ''dia M''
             @ [CHR 0xC3, CHR 0xB3] @ ''vel Exponencial (EMA), '' @ [CHR 0xC3, CHR 0x8D]
             @ ''ndice de For'' @ [CHR 0xC3, CHR 0xA7] @ ''a Relativa (RSI)'' @ [CHR 0x0A]
           @ ''- Sess'' @ [CHR 0xC3, CHR 0xA3]
             @ ''o: Alta liquidez em pares EUR/GBP, volatilidade consistente.'' @ [CHR 0x0A]
           @ ''- Risco por trade: 1.00% (1.6e+21 USD)'' @ [CHR 0x0A]
           @ ''- Stop loss m'' @ [CHR 0xC3, CHR 0xA9]
             @ ''dio: 20 pips | Take profit: 40 pips'' @ [CHR 0x0A]
           @ ''- Lote sugerido: 53333333333333340000 mini lotes'' @ [CHR 0x0A]
           @ ''- Observa'' @ [CHR 0xC3, CHR 0xA7, CHR 0xC3, CHR 0xA3] @ ''o: Combine confirma''
             @ [CHR 0xC3, CHR 0xA7, CHR 0xC3, CHR 0xA3] @ ''o de tend'' @ [CHR 0xC3, CHR 0xAA]
             @ ''ncia com filtro de volatilidade. Automatize entradas/sa'' @ [CHR 0xC3, CHR 0xAD]
             @ ''das e mantenha supervis'' @ [CHR 0xC3, CHR 0xA3]
             @ ''o humana para ajustes.'')"
  by code_simp

text \<open>
  C8. Whenever the indicators of the input are the empty array, the parse fails with the
  issue of the length check among its issues, the handler reports an error and produces
  no report (the previous result stays). When the five other rules hold, that issue is
  the only one and its message is the one shown.
\<close>

theorem C8_empty_indicators_rejected:
  assumes "currentState st ''indicators'' = JArr []"
  shows "\<exists>issues. strategySchema (currentState st) = Inl issues
           \<and> too_small ArraySize (Fin 1) True [Key ''indicators''] \<in> set issues
           \<and> error (handleGenerate em st) = Some (em (hd issues))
           \<and> result (handleGenerate em st) = result st
           \<and> (ruleHolds (currentState st) ''profile'' \<and> ruleHolds (currentState st) ''capital''
                \<and> ruleHolds (currentState st) ''riskPerTrade''
                \<and> ruleHolds (currentState st) ''session''
                \<and> ruleHolds (currentState st) ''automationLevel''
               \<longrightarrow> issues = [too_small ArraySize (Fin 1) True [Key ''indicators'']])"
proof (cases "strategySchema (currentState st)")
  case (Inr i)
  then show ?thesis
    using assms by (auto simp add: strategySchema_Inr_iff)
next
  case (Inl issues)
  have n: "fst (z_array z_string 1 [Key ''indicators''] (currentState st ''indicators''))
             = [too_small ArraySize (Fin 1) True [Key ''indicators'']]"
    unfolding assms z_array_JArr by simp
  note eq = strategySchema_Inl(2)[OF Inl, unfolded n]
  have "too_small ArraySize (Fin 1) True [Key ''indicators''] \<in> set issues"
    by (subst eq) simp
  moreover have "ruleHolds (currentState st) ''profile'' \<and> ruleHolds (currentState st) ''capital''
                \<and> ruleHolds (currentState st) ''riskPerTrade''
                \<and> ruleHolds (currentState st) ''session''
                \<and> ruleHolds (currentState st) ''automationLevel''
               \<longrightarrow> issues = [too_small ArraySize (Fin 1) True [Key ''indicators'']]"
    by (subst eq)
      (simp add: ruleHolds_profile ruleHolds_capital ruleHolds_riskPerTrade ruleHolds_session
        ruleHolds_automationLevel)
  ultimately show ?thesis
    using Inl by (simp add: handleGenerate_Inl)
qed

theorem C8_witness:
  "currentState \<lparr>form = Some (defaultState(''indicators'' := JArr [])), error = None,
       result = Some ''previous''\<rparr> ''indicators'' = JArr []
   \<and> error (handleGenerate zod3ErrorMap
        \<lparr>form = Some (defaultState(''indicators'' := JArr [])), error = None,
          result = Some ''previous''\<rparr>)
       = Some ''Array must contain at least 1 element(s)''
   \<and> result (handleGenerate zod3ErrorMap
        \<lparr>form = Some (defaultState(''indicators'' := JArr [])), error = None,
          result = Some ''previous''\<rparr>)
       = Some ''previous''"
proof -
  let ?st = "\<lparr>form = Some (defaultState(''indicators'' := JArr [])), error = None,
       result = Some ''previous''\<rparr>"
  have h: "currentState ?st ''indicators'' = JArr []"
    by (simp add: currentState_def)
  have r: "ruleHolds (currentState ?st) ''profile''" "ruleHolds (currentState ?st) ''capital''"
    "ruleHolds (currentState ?st) ''riskPerTrade''" "ruleHolds (currentState ?st) ''session''"
    "ruleHolds (currentState ?st) ''automationLevel''"
    by (simp_all add: currentState_def ruleHolds_def defaultState_simps profileValues_def
        sessionValues_def automationValues_def js_le_def fl_tenth)
  have msg: "zod3ErrorMap (too_small ArraySize (Fin 1) True [Key ''indicators''])
      = ''Array must contain at least 1 element(s)''"
    by code_simp
  from C8_empty_indicators_rejected[OF h, of zod3ErrorMap] r
  obtain issues where e: "error (handleGenerate zod3ErrorMap ?st) = Some (zod3ErrorMap (hd issues))"
    and k: "result (handleGenerate zod3ErrorMap ?st) = result ?st"
    and i: "issues = [too_small ArraySize (Fin 1) True [Key ''indicators'']]"
    by blast
  have "error (handleGenerate zod3ErrorMap ?st) = Some ''Array must contain at least 1 element(s)''"
    unfolding e i by (simp only: list.sel msg)
  then show ?thesis
    using h k by simp
qed

text \<open>
  C9. For an accepted input the stop loss is the constant of its profile, 8, 20 or 45, and
  the divisor \<open>stopLossPips * 1.5\<close> of the lot size is 12, 30 or 67.5 accordingly: a
  finite number that is not zero.
\<close>

theorem C9_lot_size_divisor_nonzero:
  assumes "strategySchema d = Inr i"
  shows "(profile i = ''Scalping'' \<and> stopLossPips i = Fin 8
            \<and> js_mul (stopLossPips i) (fl (15 / 10)) = Fin 12
          \<or> profile i = ''Day Trade'' \<and> stopLossPips i = Fin 20
            \<and> js_mul (stopLossPips i) (fl (15 / 10)) = Fin 30
          \<or> profile i = ''Swing'' \<and> stopLossPips i = Fin 45
            \<and> js_mul (stopLossPips i) (fl (15 / 10)) = Fin (135 / 2))
         \<and> js_mul (stopLossPips i) (fl (15 / 10)) \<noteq> Fin 0"
proof -
  have m: "js_mul (Fin 8) (fl (3 / 2)) = Fin 12" "js_mul (Fin 20) (fl (3 / 2)) = Fin 30"
    "js_mul (Fin 45) (fl (3 / 2)) = Fin (135 / 2)"
    by code_simp+
  have "profile i \<in> set profileValues"
    using assms by (simp add: strategySchema_Inr_iff)
  then consider "profile i = ''Scalping''" | "profile i = ''Day Trade''" | "profile i = ''Swing''"
    by (auto simp add: profileValues_def)
  then show ?thesis
  proof cases
    case 1
    then show ?thesis by (simp add: stopLossPips_def m)
  next
    case 2
    then show ?thesis by (simp add: stopLossPips_def m)
  next
    case 3
    then show ?thesis by (simp add: stopLossPips_def m)
  qed
qed

theorem C9_witness:
  "strategySchema defaultState =
     Inr \<lparr>profile = ''Day Trade'', capital = Fin 1000, riskPerTrade = Fin 1,
          indicators = [indicatorOptions ! 0, indicatorOptions ! 1], session = ''Londres'',
          automationLevel = ''Semi-Aut'' @ [CHR 0xC3, CHR 0xB4] @ ''nomo''\<rparr>
   \<and> stopLossPips \<lparr>profile = ''Day Trade'', capital = Fin 1000, riskPerTrade = Fin 1,
          indicators = [indicatorOptions ! 0, indicatorOptions ! 1], session = ''Londres'',
          automationLevel = ''Semi-Aut'' @ [CHR 0xC3, CHR 0xB4] @ ''nomo''\<rparr> = Fin 20
   \<and> js_mul (stopLossPips \<lparr>profile = ''Day Trade'', capital = Fin 1000, riskPerTrade = Fin 1,
          indicators = [indicatorOptions ! 0, indicatorOptions ! 1], session = ''Londres'',
          automationLevel = ''Semi-Aut'' @ [CHR 0xC3, CHR 0xB4] @ ''nomo''\<rparr>) (fl (15 / 10))
       = Fin 30"
  using C9_lot_size_divisor_nonzero[OF strategySchema_defaultState] strategySchema_defaultState
  by auto

text \<open>
  C10. Two accepted inputs that differ in the automation level only give the same risk
  capital, stop loss, take-profit multiplier and lot size, and their reports share
  everything up to and including the line break before the observation line. That last
  line, which holds the tip of the automation level, contains no line break.
\<close>

theorem C10_automation_level_changes_last_line_only:
  assumes "strategySchema d = Inr i" and "strategySchema d' = Inr i'"
    and "\<forall>k. k \<noteq> ''automationLevel'' \<longrightarrow> d k = d' k"
  shows "riskCapital i = riskCapital i' \<and> stopLossPips i = stopLossPips i'
         \<and> takeProfitMultiplier i = takeProfitMultiplier i' \<and> lotSize i = lotSize i'
         \<and> (\<exists>body.
               buildStrategy i = body @ [CHR 0x0A]
                 @ ''- Observa'' @ [CHR 0xC3, CHR 0xA7, CHR 0xC3, CHR 0xA3] @ ''o: ''
                 @ interp (riskNotes (profile i)) @ '' ''
                 @ interp (automationTips (automationLevel i))
             \<and> buildStrategy i' = body @ [CHR 0x0A]
                 @ ''- Observa'' @ [CHR 0xC3, CHR 0xA7, CHR 0xC3, CHR 0xA3] @ ''o: ''
                 @ interp (riskNotes (profile i)) @ '' ''
                 @ interp (automationTips (automationLevel i')))
         \<and> CHR 0x0A \<notin> set (''- Observa'' @ [CHR 0xC3, CHR 0xA7, CHR 0xC3, CHR 0xA3] @ ''o: ''
                 @ interp (riskNotes (profile i)) @ '' ''
                 @ interp (automationTips (automationLevel i)))
         \<and> CHR 0x0A \<notin> set (''- Observa'' @ [CHR 0xC3, CHR 0xA7, CHR 0xC3, CHR 0xA3] @ ''o: ''
                 @ interp (riskNotes (profile i)) @ '' ''
                 @ interp (automationTips (automationLevel i')))"
proof -
  have k: "d ''profile'' = d' ''profile''" "d ''capital'' = d' ''capital''"
    "d ''riskPerTrade'' = d' ''riskPerTrade''" "d ''indicators'' = d' ''indicators''"
    "d ''session'' = d' ''session''"
    using assms(3) by simp_all
  have same: "profile i' = profile i" "capital i' = capital i" "riskPerTrade i' = riskPerTrade i"
    "indicators i' = indicators i" "session i' = session i"
    using assms(1,2) k by (auto simp add: strategySchema_Inr_iff map_JStr_eq)
  have num: "riskCapital i = riskCapital i'" "stopLossPips i = stopLossPips i'"
    "takeProfitMultiplier i = takeProfitMultiplier i'" "lotSize i = lotSize i'"
    by (simp_all add: riskCapital_def stopLossPips_def takeProfitMultiplier_def lotSize_def same)
  let ?body = "''Estrat'' @ [CHR 0xC3, CHR 0xA9] @ ''gia '' @ profile i @ '' '' @ session i
       @ [CHR 0x0A]
     @ ''- Indicadores principais: '' @ join '', '' (indicators i) @ [CHR 0x0A]
     @ ''- Sess'' @ [CHR 0xC3, CHR 0xA3] @ ''o: '' @ interp (sessionCharacteristics (session i))
       @ [CHR 0x0A]
     @ ''- Risco por trade: '' @ toFixed (riskPerTrade i) 2 @ ''% (''
       @ toFixed (riskCapital i) 2 @ '' USD)'' @ [CHR 0x0A]
     @ ''- Stop loss m'' @ [CHR 0xC3, CHR 0xA9] @ ''dio: '' @ NumberToString (stopLossPips i)
       @ '' pips | Take profit: ''
       @ toFixed (js_mul (stopLossPips i) (takeProfitMultiplier i)) 0 @ '' pips''
       @ [CHR 0x0A]
     @ ''- Lote sugerido: '' @ NumberToString (lotSize i) @ '' mini lotes''"
  have b1: "buildStrategy i = ?body @ [CHR 0x0A]
                 @ ''- Observa'' @ [CHR 0xC3, CHR 0xA7, CHR 0xC3, CHR 0xA3] @ ''o: ''
                 @ interp (riskNotes (profile i)) @ '' ''
                 @ interp (automationTips (automationLevel i))"
    by (simp add: buildStrategy_def)
  have b2: "buildStrategy i' = ?body @ [CHR 0x0A]
                 @ ''- Observa'' @ [CHR 0xC3, CHR 0xA7, CHR 0xC3, CHR 0xA3] @ ''o: ''
                 @ interp (riskNotes (profile i)) @ '' ''
                 @ interp (automationTips (automationLevel i'))"
    unfolding buildStrategy_def num[symmetric] same by simp
  have p: "profile i \<in> set profileValues"
    and a: "automationLevel i \<in> set automationValues"
      "automationLevel i' \<in> set automationValues"
    using assms(1,2) by (simp_all add: strategySchema_Inr_iff)
  have rn: "CHR 0x0A \<notin> set (interp (riskNotes (profile i)))"
    using p by (auto simp add: profileValues_def riskNotes_def interp_def)
  have at: "CHR 0x0A \<notin> set (interp (automationTips x))" if "x \<in> set automationValues" for x
    using that by (auto simp add: automationValues_def automationTips_def interp_def)
  have nl: "CHR 0x0A \<notin> set (''- Observa'' @ [CHR 0xC3, CHR 0xA7, CHR 0xC3, CHR 0xA3] @ ''o: ''
                 @ interp (riskNotes (profile i)) @ '' ''
                 @ interp (automationTips x))" if "x \<in> set automationValues" for x
    using rn at[OF that] by simp
  from b1 b2 have "\<exists>body.
               buildStrategy i = body @ [CHR 0x0A]
                 @ ''- Observa'' @ [CHR 0xC3, CHR 0xA7, CHR 0xC3, CHR 0xA3] @ ''o: ''
                 @ interp (riskNotes (profile i)) @ '' ''
                 @ interp (automationTips (automationLevel i))
             \<and> buildStrategy i' = body @ [CHR 0x0A]
                 @ ''- Observa'' @ [CHR 0xC3, CHR 0xA7, CHR 0xC3, CHR 0xA3] @ ''o: ''
                 @ interp (riskNotes (profile i)) @ '' ''
                 @ interp (automationTips (automationLevel i'))"
    by blast
  then show ?thesis
    using num nl[OF a(1)] nl[OF a(2)] by blast
qed

theorem C10_witness:
  "strategySchema defaultState =
     Inr \<lparr>profile = ''Day Trade'', capital = Fin 1000, riskPerTrade = Fin 1,
          indicators = [indicatorOptions ! 0, indicatorOptions ! 1], session = ''Londres'',
          automationLevel = ''Semi-Aut'' @ [CHR 0xC3, CHR 0xB4] @ ''nomo''\<rparr>
   \<and> strategySchema (defaultState(''automationLevel'' := JStr ''Total'')) =
     Inr \<lparr>profile = ''Day Trade'', capital = Fin 1000, riskPerTrade = Fin 1,
          indicators = [indicatorOptions ! 0, indicatorOptions ! 1], session = ''Londres'',
          automationLevel = ''Total''\<rparr>
   \<and> lotSize \<lparr>profile = ''Day Trade'', capital = Fin 1000, riskPerTrade = Fin 1,
          indicators = [indicatorOptions ! 0, indicatorOptions ! 1], session = ''Londres'',
          automationLevel = ''Semi-Aut'' @ [CHR 0xC3, CHR 0xB4] @ ''nomo''\<rparr>
     = lotSize \<lparr>profile = ''Day Trade'', capital = Fin 1000, riskPerTrade = Fin 1,
          indicators = [indicatorOptions ! 0, indicatorOptions ! 1], session = ''Londres'',
          automationLevel = ''Total''\<rparr>
   \<and> (\<exists>body.
         buildStrategy \<lparr>profile = ''Day Trade'', capital = Fin 1000, riskPerTrade = Fin 1,
             indicators = [indicatorOptions ! 0, indicatorOptions ! 1], session = ''Londres'',
             automationLevel = ''Semi-Aut'' @ [CHR 0xC3, CHR 0xB4] @ ''nomo''\<rparr>
           = body @ [CHR 0x0A]
               @ ''- Observa'' @ [CHR 0xC3, CHR 0xA7, CHR 0xC3, CHR 0xA3] @ ''o: ''
               @ interp (riskNotes ''Day Trade'') @ '' ''
               @ interp (automationTips (''Semi-Aut'' @ [CHR 0xC3, CHR 0xB4] @ ''nomo''))
       \<and> buildStrategy \<lparr>profile = ''Day Trade'', capital = Fin 1000, riskPerTrade = Fin 1,
             indicators = [indicatorOptions ! 0, indicatorOptions ! 1], session = ''Londres'',
             automationLevel = ''Total''\<rparr>
           = body @ [CHR 0x0A]
               @ ''- Observa'' @ [CHR 0xC3, CHR 0xA7, CHR 0xC3, CHR 0xA3] @ ''o: ''
               @ interp (riskNotes ''Day Trade'') @ '' ''
               @ interp (automationTips ''Total''))"
proof -
  let ?i = "\<lparr>profile = ''Day Trade'', capital = Fin 1000, riskPerTrade = Fin 1,
          indicators = [indicatorOptions ! 0, indicatorOptions ! 1], session = ''Londres'',
          automationLevel = ''Semi-Aut'' @ [CHR 0xC3, CHR 0xB4] @ ''nomo''\<rparr>"
  let ?i' = "\<lparr>profile = ''Day Trade'', capital = Fin 1000, riskPerTrade = Fin 1,
          indicators = [indicatorOptions ! 0, indicatorOptions ! 1], session = ''Londres'',
          automationLevel = ''Total''\<rparr>"
  have h1: "strategySchema defaultState = Inr ?i"
    by (rule strategySchema_defaultState)
  have h2: "strategySchema (defaultState(''automationLevel'' := JStr ''Total'')) = Inr ?i'"
    by (simp add: strategySchema_Inr_iff defaultState_simps profileValues_def sessionValues_def
      automationValues_def js_le_def fl_tenth)
  have h3: "\<forall>k. k \<noteq> ''automationLevel''
      \<longrightarrow> defaultState k = (defaultState(''automationLevel'' := JStr ''Total'')) k"
    by simp
  note c = C10_automation_level_changes_last_line_only[OF h1 h2 h3]
  from c have l: "lotSize ?i = lotSize ?i'"
    by blast
  from c have "\<exists>body.
         buildStrategy ?i = body @ [CHR 0x0A]
               @ ''- Observa'' @ [CHR 0xC3, CHR 0xA7, CHR 0xC3, CHR 0xA3] @ ''o: ''
               @ interp (riskNotes (profile ?i)) @ '' ''
               @ interp (automationTips (automationLevel ?i))
       \<and> buildStrategy ?i' = body @ [CHR 0x0A]
               @ ''- Observa'' @ [CHR 0xC3, CHR 0xA7, CHR 0xC3, CHR 0xA3] @ ''o: ''
               @ interp (riskNotes (profile ?i)) @ '' ''
               @ interp (automationTips (automationLevel ?i'))"
    by blast
  then have "\<exists>body.
         buildStrategy ?i = body @ [CHR 0x0A]
               @ ''- Observa'' @ [CHR 0xC3, CHR 0xA7, CHR 0xC3, CHR 0xA3] @ ''o: ''
               @ interp (riskNotes ''Day Trade'') @ '' ''
               @ interp (automationTips (''Semi-Aut'' @ [CHR 0xC3, CHR 0xB4] @ ''nomo''))
       \<and> buildStrategy ?i' = body @ [CHR 0x0A]
               @ ''- Observa'' @ [CHR 0xC3, CHR 0xA7, CHR 0xC3, CHR 0xA3] @ ''o: ''
               @ interp (riskNotes ''Day Trade'') @ '' ''
               @ interp (automationTips ''Total'')"
    by (simp only: StrategyInput.simps)
  then show ?thesis
    using h1 h2 l by blast
qed

end
